theory Spec2Isabelle
  imports Main "HOL-Library.Sublist" "HOL-Library.List_Lexorder" "HOL-Library.Char_ord"
begin

section \<open>Strings and paths\<close>

text \<open>
  Python strings are modelled as \<open>string\<close> (lists of characters). A \<open>pathlib.Path\<close> is
  modelled by the list of its components (\<open>Path.parts\<close>) on a POSIX host; an absolute
  directory carries an empty first component, so that \<open>path_str\<close> renders the leading
  separator. File and directory names never contain the separator.
\<close>

type_synonym path = "string list"

text \<open>\<open>pattern in s\<close> on Python strings: \<open>pattern\<close> occurs as a contiguous substring.\<close>

fun str_in :: "string \<Rightarrow> string \<Rightarrow> bool" where
  "str_in pat [] = (pat = [])"
| "str_in pat (c # cs) = (prefix pat (c # cs) \<or> str_in pat cs)"

text \<open>\<open>str.join\<close> with a separator.\<close>

fun join_with :: "string \<Rightarrow> string list \<Rightarrow> string" where
  "join_with sep [] = []"
| "join_with sep [p] = p"
| "join_with sep (p # q # ps) = p @ sep @ join_with sep (q # ps)"

definition path_str :: "path \<Rightarrow> string" where
  "path_str p = join_with ''/'' p"

text \<open>\<open>s.replace('\\', '/')\<close>: every backslash (character code 0x5C) becomes a slash.\<close>

definition replace_backslash :: "string \<Rightarrow> string" where
  "replace_backslash s = map (\<lambda>c. if c = CHR 0x5C then CHR ''/'' else c) s"

text \<open>\<open>str.split(sep)\<close> for a one-character separator; the result is never empty.\<close>

fun split_on :: "char \<Rightarrow> string \<Rightarrow> string list" where
  "split_on sep [] = [[]]"
| "split_on sep (c # cs) =
     (if c = sep then [] # split_on sep cs
      else (case split_on sep cs of
              [] \<Rightarrow> [[c]]
            | w # ws \<Rightarrow> (c # w) # ws))"

text \<open>\<open>str.lower()\<close> on ASCII letters; other characters are left as they are.\<close>

definition lower_char :: "char \<Rightarrow> char" where
  "lower_char c =
     (if of_char c \<ge> (65::nat) \<and> of_char c \<le> (90::nat)
      then char_of (of_char c + (32::nat)) else c)"

definition lower :: "string \<Rightarrow> string" where
  "lower s = map lower_char s"

text \<open>\<open>Path.name\<close>: the final component, empty for the empty path.\<close>

definition path_name :: "path \<Rightarrow> string" where
  "path_name p = (if p = [] then [] else last p)"

text \<open>
  \<open>str.rfind('.')\<close> as an option: the index of the last dot.
\<close>

fun rfind_dot :: "string \<Rightarrow> nat option" where
  "rfind_dot [] = None"
| "rfind_dot (c # cs) =
     (case rfind_dot cs of
        Some i \<Rightarrow> Some (Suc i)
      | None \<Rightarrow> (if c = CHR ''.'' then Some 0 else None))"

text \<open>
  \<open>Path.suffix\<close>: with \<open>i = name.rfind('.')\<close>, the suffix is \<open>name[i:]\<close> when
  \<open>0 < i < len(name) - 1\<close> and the empty string otherwise.
\<close>

definition path_suffix :: "path \<Rightarrow> string" where
  "path_suffix p =
     (let name = path_name p in
      case rfind_dot name of
        None \<Rightarrow> []
      | Some i \<Rightarrow> (if 0 < i \<and> Suc i < length name then drop i name else []))"

section \<open>FilePatternMatcher\<close>

definition important_extensions :: "string list" where
  "important_extensions =
     [''.py'', ''.json'', ''.yml'', ''.yaml'', ''.md'', ''.txt'', ''.ini'', ''.cfg'',
      ''.toml'', ''.html'', ''.css'', ''.js'', ''.xml'', ''.iml'', ''.gitignore'',
      ''.sql'', ''.rst'', ''.sh'', ''.bat'', ''.ps1'', ''.ipynb'', ''.java'', ''.properties'',
      ''.gradle'', ''.dart'', ''.kt'', ''.kts'', ''.tsx'', ''.ts'', ''.jsx'']"

definition important_filenames :: "string list" where
  "important_filenames =
     [''requirements.txt'', ''Pipfile'', ''Pipfile.lock'', ''pyproject.toml'',
      ''setup.py'', ''setup.cfg'', ''README.md'', ''.env.example'', ''.gitignore'',
      ''Dockerfile'', ''docker-compose.yml'', ''Makefile'', ''LICENSE'', ''.flake8'',
      ''poetry.lock'', ''package.json'', ''package-lock.json'', ''tsconfig.json'',
      ''.prettierrc'', ''.eslintrc'', ''tox.ini'', ''.coveragerc'', ''.babelrc'',
      ''webpack.config.js'', ''vue.config.js'', ''angular.json'', ''build.gradle'']"

definition is_important_file :: "path \<Rightarrow> bool \<Rightarrow> bool" where
  "is_important_file filepath include_venv =
     (if lower (path_suffix filepath) \<in> set important_extensions then True
      else if path_name filepath \<in> set important_filenames then True
      else False)"

definition default_excluded_dirs :: "string list" where
  "default_excluded_dirs =
     [''__pycache__'', ''.git'', ''.idea'', ''dist'', ''build'', ''node_modules'',
      ''data'', ''logs'', ''temp'', ''tmp'', ''.pytest_cache'', ''.mypy_cache'',
      ''.ipynb_checkpoints'', ''output'', ''downloads'', ''coverage'', ''htmlcov'']"

definition venv_dirs :: "string list" where
  "venv_dirs = [''venv'', ''.venv'', ''env'', ''.env'', ''virtualenv'']"

definition is_excluded_dir :: "string \<Rightarrow> bool \<Rightarrow> string list \<Rightarrow> bool" where
  "is_excluded_dir dirname include_venv custom_excludes =
     (let excluded_dirs =
            (if \<not> include_venv then default_excluded_dirs @ venv_dirs
             else default_excluded_dirs)
      in if dirname \<in> set excluded_dirs then True
         else if list_ex (\<lambda>exclude_pattern. str_in exclude_pattern dirname) custom_excludes
         then True
         else False)"

definition should_exclude_file :: "path \<Rightarrow> string list \<Rightarrow> bool" where
  "should_exclude_file filepath custom_excludes =
     list_ex (\<lambda>exclude_pattern. str_in exclude_pattern (path_str filepath)) custom_excludes"

definition is_in_include_paths :: "path \<Rightarrow> string list \<Rightarrow> bool" where
  "is_in_include_paths rel_path include_paths =
     (if include_paths = [] then False
      else (let str_path = replace_backslash (path_str rel_path)
            in list_ex (\<lambda>include_path. prefix (replace_backslash include_path) str_path)
                 include_paths))"

section \<open>Backup file names of the configuration backup\<close>

text \<open>
  The two name patterns are regular expressions built from literal characters and
  \<open>\d{n}\<close> only. \<open>re_match\<close> is \<open>pattern.match(s)\<close>: the pattern has to match at the
  start of \<open>s\<close>, and \<open>s\<close> may go on after the match. \<open>re_fullmatch\<close> asks for the whole
  string. Characters are bytes here, so \<open>\d\<close> is an ASCII digit.
\<close>

datatype re_item = Lit char | Digits nat

definition is_digit :: "char \<Rightarrow> bool" where
  "is_digit c = ((48::nat) \<le> of_char c \<and> of_char c \<le> (57::nat))"

fun re_match :: "re_item list \<Rightarrow> string \<Rightarrow> bool" where
  "re_match [] s = True"
| "re_match (Lit c # r) s = (case s of [] \<Rightarrow> False | x # xs \<Rightarrow> x = c \<and> re_match r xs)"
| "re_match (Digits n # r) s =
     (n \<le> length s \<and> list_all is_digit (take n s) \<and> re_match r (drop n s))"

fun re_fullmatch :: "re_item list \<Rightarrow> string \<Rightarrow> bool" where
  "re_fullmatch [] s = (s = [])"
| "re_fullmatch (Lit c # r) s =
     (case s of [] \<Rightarrow> False | x # xs \<Rightarrow> x = c \<and> re_fullmatch r xs)"
| "re_fullmatch (Digits n # r) s =
     (n \<le> length s \<and> list_all is_digit (take n s) \<and> re_fullmatch r (drop n s))"

definition lits :: "string \<Rightarrow> re_item list" where
  "lits s = map Lit s"

text \<open>\<open>pycharm_idea_backup_\d{2}_\d{2}_\d{4}\.zip\<close>, the pattern of \<open>clean_old_backups\<close>.\<close>

definition clean_backup_pattern :: "re_item list" where
  "clean_backup_pattern =
     lits ''pycharm_idea_backup_'' @
     [Digits 2, Lit (CHR ''_''), Digits 2, Lit (CHR ''_''), Digits 4] @ lits ''.zip''"

text \<open>\<open>pycharm_idea_backup_\d{4}-\d{2}-\d{2}_\d{2}-\d{2}\.zip\<close>, the pattern of \<open>list_backups\<close>.\<close>

definition list_backup_pattern :: "re_item list" where
  "list_backup_pattern =
     lits ''pycharm_idea_backup_'' @
     [Digits 4, Lit (CHR ''-''), Digits 2, Lit (CHR ''-''), Digits 2, Lit (CHR ''_''),
      Digits 2, Lit (CHR ''-''), Digits 2] @ lits ''.zip''"

text \<open>
  The time stamp \<open>datetime.datetime.now()\<close> of \<open>create_backup\<close>. Its fields are bounded
  by the type: years 1 to 9999, months 1 to 12, days 1 to 31, hours 0 to 23, minutes 0 to
  59. \<open>strftime\<close> writes the year in four digits from the year 1000 on and every other
  field in two.
\<close>

record datetime =
  year :: nat
  month :: nat
  day :: nat
  hour :: nat
  minute :: nat

definition valid_datetime :: "datetime \<Rightarrow> bool" where
  "valid_datetime t =
     (1000 \<le> year t \<and> year t \<le> 9999 \<and> 1 \<le> month t \<and> month t \<le> 12 \<and>
      1 \<le> day t \<and> day t \<le> 31 \<and> hour t \<le> 23 \<and> minute t \<le> 59)"

definition digit_char :: "nat \<Rightarrow> char" where
  "digit_char d = char_of (48 + d mod 10)"

definition pad2 :: "nat \<Rightarrow> string" where
  "pad2 n = [digit_char (n div 10), digit_char n]"

definition pad4 :: "nat \<Rightarrow> string" where
  "pad4 n = [digit_char (n div 1000), digit_char (n div 100), digit_char (n div 10),
             digit_char n]"

text \<open>\<open>now.strftime("%Y-%m-%d_%H-%M")\<close>.\<close>

definition strftime_stamp :: "datetime \<Rightarrow> string" where
  "strftime_stamp t =
     pad4 (year t) @ ''-'' @ pad2 (month t) @ ''-'' @ pad2 (day t) @ ''_'' @
     pad2 (hour t) @ ''-'' @ pad2 (minute t)"

text \<open>The name \<open>create_backup\<close> gives a backup when \<open>output_file\<close> is \<open>None\<close>.\<close>

definition default_backup_name :: "datetime \<Rightarrow> string" where
  "default_backup_name t = ''pycharm_idea_backup_'' @ strftime_stamp t @ ''.zip''"

text \<open>
  A name of the shape \<open>pycharm_idea_backup_YYYY-MM-DD_HH-MM.zip\<close>, with digits for the
  letters and nothing before or after.
\<close>

definition default_named :: "string \<Rightarrow> bool" where
  "default_named f = re_fullmatch list_backup_pattern f"

text \<open>
  \<open>backups.sort(key=..., reverse=True)\<close>: descending by key; equal keys keep the order
  they had.
\<close>

definition sort_newest_first :: "('a \<Rightarrow> 'k::linorder) \<Rightarrow> 'a list \<Rightarrow> 'a list" where
  "sort_newest_first key xs = rev (sort_key key (rev xs))"

text \<open>
  \<open>clean_old_backups\<close>. The current directory is the list of its file names, \<open>mtime\<close>
  gives the modification time of a file and \<open>remove_ok\<close> says whether \<open>os.remove\<close>
  succeeds on it (a failure is logged and the loop goes on). The result is the directory
  after the call.
\<close>

definition old_backups :: "int \<Rightarrow> (string \<Rightarrow> 'k::linorder) \<Rightarrow> string list \<Rightarrow> string list" where
  "old_backups max_backups mtime listing =
     (if max_backups \<le> 0 then []
      else (let backups = filter (re_match clean_backup_pattern) listing
            in if int (length backups) \<le> max_backups then []
               else drop (nat max_backups) (sort_newest_first mtime backups)))"

definition clean_old_backups ::
  "int \<Rightarrow> (string \<Rightarrow> 'k::linorder) \<Rightarrow> (string \<Rightarrow> bool) \<Rightarrow> string list \<Rightarrow> string list" where
  "clean_old_backups max_backups mtime remove_ok listing =
     (let removed = filter remove_ok (old_backups max_backups mtime listing)
      in filter (\<lambda>f. f \<notin> set removed) listing)"

text \<open>The names \<open>list_backups\<close> returns, newest first.\<close>

definition list_backups :: "(string \<Rightarrow> 'k::linorder) \<Rightarrow> string list \<Rightarrow> string list" where
  "list_backups mtime listing =
     (let backups = filter (re_match list_backup_pattern) listing
      in if backups = [] then [] else sort_newest_first mtime backups)"


section \<open>Logging, errors and containers\<close>

text \<open>
  A log is the list of the records written, each with its severity. An exception that a
  function does not catch is its result \<open>Inl e\<close>. A zip container is the list of the names
  of its entries, in the order they were written; reading a container that is missing or
  damaged raises, which is \<open>None\<close> here.
\<close>

datatype level = Debug | Info | Warning | Error

type_synonym log = "(level \<times> string) list"

datatype error =
  ArchiveUnreadable
| ExtractFailed string
| MakedirsFailed string
| DiffFailed string
| MkdirFailed

section \<open>Configuration backup: create and verify\<close>

definition verify_backup :: "string list option \<Rightarrow> string list \<Rightarrow> bool \<times> log" where
  "verify_backup container original_files =
     (case container of
        None \<Rightarrow>
          (False, [(Info, ''Verifying backup integrity...''),
                   (Error, ''Backup verification failed'')])
      | Some backup_files \<Rightarrow>
          (if length backup_files < length original_files
           then (False, [(Info, ''Verifying backup integrity...''),
                         (Warning, ''Backup contains fewer files than expected'')])
           else (True, [(Info, ''Verifying backup integrity...''),
                        (Info, ''Backup verification passed'')])))"

text \<open>
  What \<open>create_backup\<close> meets outside itself: whether \<open>projects_dir\<close> is a directory,
  whether the output directory exists or can be made, the files the three scans found
  (each with the name it gets in the archive; the recent and the global lists are empty
  when their flag is off), whether the container can be opened for writing, which files
  can be written into it, and what the container lists when verification opens it again
  (on an undisturbed disk, the names just written).
\<close>

record backup_world =
  projects_dir_isdir :: bool
  output_dir_ok :: bool
  idea_files :: "(string \<times> string) list"
  recent_files :: "(string \<times> string) list"
  global_settings_files :: "(string \<times> string) list"
  open_ok :: bool
  write_ok :: "string \<Rightarrow> bool"
  reopened :: "string list option"

text \<open>
  The three write loops of \<open>create_backup\<close>, as one: the first file that cannot be
  written raises and ends the loop, with the entries written so far in the container.
\<close>

fun write_all :: "(string \<Rightarrow> bool) \<Rightarrow> (string \<times> string) list \<Rightarrow> string list \<Rightarrow> string list \<times> bool" where
  "write_all ok [] zipf = (zipf, True)"
| "write_all ok ((file, arcname) # rest) zipf =
     (if ok file then write_all ok rest (zipf @ [arcname]) else (zipf, False))"

text \<open>
  \<open>create_backup\<close>: the value returned, the output file afterwards (\<open>disk\<close> is the
  output file before) and the records logged by a failure and by the verification.
\<close>

definition create_backup ::
  "backup_world \<Rightarrow> bool \<Rightarrow> string list option \<Rightarrow> bool \<times> string list option \<times> log" where
  "create_backup w dry_run disk =
     (if \<not> projects_dir_isdir w then (False, disk, [(Error, ''Directory not found'')])
      else if \<not> output_dir_ok w
      then (False, disk, [(Error, ''Failed to create output directory'')])
      else (let all_files = idea_files w @ recent_files w @ global_settings_files w in
            if length all_files = 0
            then (False, disk, [(Warning, ''No PyCharm configuration files found to back up'')])
            else if dry_run then (True, disk, [])
            else if \<not> open_ok w then (False, disk, [(Error, ''Failed to create backup'')])
            else (case write_all (write_ok w) all_files [] of
                    (zipf, False) \<Rightarrow> (False, Some zipf, [(Error, ''Failed to create backup'')])
                  | (zipf, True) \<Rightarrow>
                      (let original_files = map fst all_files;
                           (backup_verified, vlog) = verify_backup (reopened w) original_files
                       in if \<not> backup_verified
                          then (False, Some zipf,
                                vlog @ [(Warning, ''Backup verification failed. The backup may be incomplete or corrupted.'')])
                          else (True, Some zipf, vlog)))))"

section \<open>Configuration backup: listing and restoring\<close>

text \<open>
  What the restore functions meet outside themselves: whether the backup file exists,
  the names its container lists, the last component of \<open>projects_dir\<close>, which project
  directories exist and have an \<open>.idea\<close> directory, for every entry whether the
  directory of its target can be made, whether the entry can be copied to its target and
  whether the comparison that \<open>show_diff\<close> runs on it ends without an exception, the
  configuration directories of the installed IDEs with their last components, and which
  of them have an \<open>options\<close> directory.
\<close>

record restore_world =
  backup_exists :: bool
  container :: "string list option"
  projects_base :: string
  project_exists :: "string \<Rightarrow> bool"
  idea_exists :: "string \<Rightarrow> bool"
  makedirs_ok :: "string \<Rightarrow> bool"
  extract_ok :: "string \<Rightarrow> bool"
  diff_ok :: "string \<Rightarrow> bool"
  config_dirs :: "string list"
  config_base :: "string \<Rightarrow> string"
  options_exists :: "string \<Rightarrow> bool"

definition recent_prefix :: string where
  "recent_prefix = ''_pycharm_recent_projects/''"

definition global_prefix :: string where
  "global_prefix = ''_pycharm_global_settings/''"

text \<open>The project name that \<open>list_projects_in_backup\<close> reads from one entry, if any.\<close>

definition project_of_entry :: "string \<Rightarrow> string option" where
  "project_of_entry filename =
     (if prefix recent_prefix filename then None
      else if prefix global_prefix filename then None
      else (let parts = split_on (CHR ''/'') filename
            in if length parts \<ge> 2 then Some (parts ! 1) else None))"

definition list_projects_in_backup :: "restore_world \<Rightarrow> string list" where
  "list_projects_in_backup w =
     (if \<not> backup_exists w then []
      else (case container w of
              None \<Rightarrow> []
            | Some names \<Rightarrow> sort (remdups (List.map_filter project_of_entry names))))"

text \<open>
  A loop that copies entries with no handler around it: the first entry that fails
  raises, and the entries copied before it stay copied.
\<close>

fun extract_all :: "restore_world \<Rightarrow> string list \<Rightarrow> string list \<times> error option" where
  "extract_all w [] = ([], None)"
| "extract_all w (zip_path # rest) =
     (if \<not> makedirs_ok w zip_path then ([], Some (MakedirsFailed zip_path))
      else if \<not> extract_ok w zip_path then ([], Some (ExtractFailed zip_path))
      else (case extract_all w rest of (restored, e) \<Rightarrow> (zip_path # restored, e)))"

text \<open>
  \<open>restore_project\<close>: the entries copied into the project and the value returned, or the
  exception raised.
\<close>

definition restore_project ::
  "restore_world \<Rightarrow> string \<Rightarrow> bool \<Rightarrow> bool \<Rightarrow> string list \<times> (error + bool)" where
  "restore_project w project_name dry_run show_diff =
     (if \<not> project_exists w project_name then ([], Inr False)
      else if \<not> idea_exists w project_name then ([], Inr False)
      else (let project_path_in_zip = projects_base w @ ''/'' @ project_name in
            case container w of
              None \<Rightarrow> ([], Inl ArchiveUnreadable)
            | Some names \<Rightarrow>
                (let files_to_restore = filter (prefix project_path_in_zip) names in
                 if files_to_restore = [] then ([], Inr False)
                 else (case (if show_diff then find (\<lambda>f. \<not> diff_ok w f) files_to_restore
                             else None) of
                         Some f \<Rightarrow> ([], Inl (DiffFailed f))
                       | None \<Rightarrow>
                           (if \<not> dry_run
                            then (case extract_all w files_to_restore of
                                    (restored, Some e) \<Rightarrow> (restored, Inl e)
                                  | (restored, None) \<Rightarrow> (restored, Inr True))
                            else ([], Inr True))))))"

text \<open>
  The inner loop of \<open>restore_recent_projects\<close> for one entry, over the configuration
  directories: the number added to \<open>files_restored\<close> and the entry if it was copied.
\<close>

fun restore_recent_file ::
  "restore_world \<Rightarrow> bool \<Rightarrow> string \<Rightarrow> string list \<Rightarrow> (nat \<times> string list) \<times> error option" where
  "restore_recent_file w dry_run file_path [] = ((0, []), None)"
| "restore_recent_file w dry_run file_path (config_dir # rest) =
     (if dry_run
      then (case restore_recent_file w dry_run file_path rest of
              ((n, r), e) \<Rightarrow> ((Suc n, r), e))
      else if options_exists w config_dir
      then (if extract_ok w file_path then ((1, [file_path]), None)
            else ((0, []), Some (ExtractFailed file_path)))
      else restore_recent_file w dry_run file_path rest)"

fun restore_recent_loop ::
  "restore_world \<Rightarrow> bool \<Rightarrow> string list \<Rightarrow> (nat \<times> string list) \<times> error option" where
  "restore_recent_loop w dry_run [] = ((0, []), None)"
| "restore_recent_loop w dry_run (file_path # rest) =
     (case restore_recent_file w dry_run file_path (config_dirs w) of
        ((n, r), Some e) \<Rightarrow> ((n, r), Some e)
      | ((n, r), None) \<Rightarrow>
          (case restore_recent_loop w dry_run rest of
             ((m, r'), e) \<Rightarrow> ((n + m, r @ r'), e)))"

definition restore_recent_projects ::
  "restore_world \<Rightarrow> bool \<Rightarrow> string list \<times> (error + bool)" where
  "restore_recent_projects w dry_run =
     (if \<not> backup_exists w then ([], Inr False)
      else (case container w of
              None \<Rightarrow> ([], Inl ArchiveUnreadable)
            | Some names \<Rightarrow>
                (let recent_files_in_backup = filter (prefix recent_prefix) names in
                 if recent_files_in_backup = [] then ([], Inr False)
                 else if config_dirs w = [] then ([], Inr False)
                 else (case restore_recent_loop w dry_run recent_files_in_backup of
                         ((n, restored), Some e) \<Rightarrow> (restored, Inl e)
                       | ((n, restored), None) \<Rightarrow> (restored, Inr (n > 0))))))"

text \<open>
  The loop of \<open>restore_global_settings\<close> over the files of one version: making the
  directory of the target is outside the handler, copying the entry is inside.
\<close>

fun restore_version_files ::
  "restore_world \<Rightarrow> bool \<Rightarrow> string list \<Rightarrow> (nat \<times> string list) \<times> error option" where
  "restore_version_files w dry_run [] = ((0, []), None)"
| "restore_version_files w dry_run (file_path # rest) =
     (if dry_run
      then (case restore_version_files w dry_run rest of ((n, r), e) \<Rightarrow> ((Suc n, r), e))
      else if \<not> makedirs_ok w file_path then ((0, []), Some (MakedirsFailed file_path))
      else if extract_ok w file_path
      then (case restore_version_files w dry_run rest of
              ((n, r), e) \<Rightarrow> ((Suc n, file_path # r), e))
      else restore_version_files w dry_run rest)"

fun restore_versions ::
  "restore_world \<Rightarrow> bool \<Rightarrow> string list \<Rightarrow> string list \<Rightarrow> (nat \<times> string list) \<times> error option" where
  "restore_versions w dry_run global_settings_in_backup [] = ((0, []), None)"
| "restore_versions w dry_run global_settings_in_backup (version # rest) =
     (let matching_dirs = filter (\<lambda>d. config_base w d = version) (config_dirs w) in
      if matching_dirs = [] then restore_versions w dry_run global_settings_in_backup rest
      else (let version_files =
                  filter (prefix (global_prefix @ version @ ''/'')) global_settings_in_backup
            in case restore_version_files w dry_run version_files of
                 ((n, r), Some e) \<Rightarrow> ((n, r), Some e)
               | ((n, r), None) \<Rightarrow>
                   (case restore_versions w dry_run global_settings_in_backup rest of
                      ((m, r'), e) \<Rightarrow> ((n + m, r @ r'), e))))"

text \<open>
  The versions found in the container are kept in a Python set; the loop over it is taken
  in the order of first appearance.
\<close>

definition versions_in_backup :: "string list \<Rightarrow> string list" where
  "versions_in_backup global_settings_in_backup =
     remdups (List.map_filter
       (\<lambda>filename. let parts = split_on (CHR ''/'') filename
                   in if length parts \<ge> 3 then Some (parts ! 1) else None)
       global_settings_in_backup)"

definition restore_global_settings ::
  "restore_world \<Rightarrow> bool \<Rightarrow> string list \<times> (error + bool)" where
  "restore_global_settings w dry_run =
     (if \<not> backup_exists w then ([], Inr False)
      else (case container w of
              None \<Rightarrow> ([], Inl ArchiveUnreadable)
            | Some names \<Rightarrow>
                (let global_settings_in_backup = filter (prefix global_prefix) names in
                 if global_settings_in_backup = [] then ([], Inr False)
                 else if config_dirs w = [] then ([], Inr False)
                 else (case restore_versions w dry_run global_settings_in_backup
                              (versions_in_backup global_settings_in_backup) of
                         ((n, restored), Some e) \<Rightarrow> (restored, Inl e)
                       | ((n, restored), None) \<Rightarrow> (restored, Inr (n > 0))))))"


text \<open>
  The \<open>projects\<close> argument of \<open>restore_projects\<close> is one name or a list of names. The
  name \<open>all\<close>, in any case of the letters, becomes the empty list, and the empty list
  stands for every project of the backup.
\<close>

datatype selection = Project string | Projects "string list"

definition selected :: "selection \<Rightarrow> string list" where
  "selected sel =
     (case sel of
        Project name \<Rightarrow> (if lower name = ''all'' then [] else [name])
      | Projects names \<Rightarrow> names)"

text \<open>
  The loop of \<open>restore_projects\<close> over the projects: \<open>projects_restored\<close> and the entries
  copied; an exception of \<open>restore_project\<close> is not caught and ends the loop.
\<close>

fun restore_each ::
  "restore_world \<Rightarrow> bool \<Rightarrow> bool \<Rightarrow> string list \<Rightarrow> (nat \<times> string list) \<times> error option" where
  "restore_each w dry_run show_diff [] = ((0, []), None)"
| "restore_each w dry_run show_diff (project_name # rest) =
     (case restore_project w project_name dry_run show_diff of
        (r, Inl e) \<Rightarrow> ((0, r), Some e)
      | (r, Inr ok) \<Rightarrow>
          (case restore_each w dry_run show_diff rest of
             ((n, r'), e) \<Rightarrow> ((if ok then Suc n else n, r @ r'), e)))"

text \<open>
  \<open>restore_projects\<close> with a backup file given (with none, the source asks the user to
  pick one of \<open>list_backups\<close>): the entries copied and the value returned, or the
  exception raised.
\<close>

definition restore_projects ::
  "restore_world \<Rightarrow> selection \<Rightarrow> bool \<Rightarrow> bool \<Rightarrow> bool \<Rightarrow> bool \<Rightarrow> string list \<times> (error + bool)" where
  "restore_projects w sel restore_recent_projects_files restore_global_settings_files
       dry_run show_diff =
     (if \<not> backup_exists w then ([], Inr False)
      else (let projects = (if selected sel = [] then list_projects_in_backup w
                            else selected sel) in
            case restore_each w dry_run show_diff projects of
              ((projects_restored, r), Some e) \<Rightarrow> (r, Inl e)
            | ((projects_restored, r), None) \<Rightarrow>
                (case (if restore_recent_projects_files then restore_recent_projects w dry_run
                       else ([], Inr False)) of
                   (r1, Inl e) \<Rightarrow> (r @ r1, Inl e)
                 | (r1, Inr b1) \<Rightarrow>
                     (case (if restore_global_settings_files
                            then restore_global_settings w dry_run
                            else ([], Inr False)) of
                        (r2, Inl e) \<Rightarrow> (r @ r1 @ r2, Inl e)
                      | (r2, Inr b2) \<Rightarrow> (r @ r1 @ r2, Inr (projects_restored > 0))))))"

section \<open>Project backup: restore\<close>

text \<open>
  \<open>Path(name).parts\<close> on a POSIX host: the components between separators, without the
  empty ones and without \<open>.\<close>; a leading separator is a component of its own.
\<close>

definition pure_path_parts :: "string \<Rightarrow> string list" where
  "pure_path_parts s =
     (if prefix ''//'' s \<and> \<not> prefix ''///'' s then [''//'']
      else if prefix ''/'' s then [''/''] else []) @
     filter (\<lambda>p. p \<noteq> [] \<and> p \<noteq> ''.'') (split_on (CHR ''/'') s)"

record extract_world =
  archive_exists :: bool
  extract_dir_ok :: bool
  archive :: "string list option"
  can_extract :: "string \<Rightarrow> bool"

text \<open>
  The extraction loop of \<open>PyCharmBackupRestoreManager.restore\<close>: every entry is tried
  inside its own handler; a failure is logged as an error and the loop goes on.
\<close>

fun extract_each :: "extract_world \<Rightarrow> string list \<Rightarrow> string list \<Rightarrow> string list \<times> log" where
  "extract_each w projects [] = ([], [])"
| "extract_each w projects (file_path # rest) =
     (case extract_each w projects rest of
        (restored, l) \<Rightarrow>
          (if pure_path_parts file_path \<noteq> [] \<and> hd (pure_path_parts file_path) \<notin> set projects
           then (restored, l)
           else if can_extract w file_path
           then (file_path # restored, (Debug, ''Restored: '' @ file_path) # l)
           else (restored, (Error, ''Error extracting '' @ file_path) # l)))"

definition restore ::
  "extract_world \<Rightarrow> string list \<Rightarrow> (string list \<times> log) \<times> (error + bool)" where
  "restore w selected_projects =
     (if \<not> archive_exists w then (([], [(Error, ''Backup file not found'')]), Inr False)
      else if \<not> extract_dir_ok w then (([], []), Inl MkdirFailed)
      else (case archive w of
              None \<Rightarrow> (([], [(Error, ''Error restoring backup'')]), Inr False)
            | Some all_files \<Rightarrow>
                (let found = remdups (List.map_filter
                               (\<lambda>f. case pure_path_parts f of [] \<Rightarrow> None | p # ps \<Rightarrow> Some p)
                               all_files);
                     projects = (if selected_projects \<noteq> []
                                 then filter (\<lambda>p. p \<in> set selected_projects) found
                                 else found)
                 in if selected_projects \<noteq> [] \<and> projects = []
                    then (([], [(Error, ''None of the selected projects were found in the backup.'')]),
                          Inr False)
                    else (let project_files =
                                filter (\<lambda>f. pure_path_parts f \<noteq> [] \<and>
                                            hd (pure_path_parts f) \<in> set projects) all_files
                          in (extract_each w projects project_files, Inr True)))))"


section \<open>Project backup: the scan\<close>

text \<open>
  \<open>fnmatch.fnmatchcase(name, pattern)\<close> for patterns made of literal characters and
  \<open>*\<close>, which are the only ones this program builds; a star stands for any run of
  characters, the empty one too.
\<close>

fun fnmatchcase :: "string \<Rightarrow> string \<Rightarrow> bool" where
  "fnmatchcase [] [] = True"
| "fnmatchcase (c # cs) [] = False"
| "fnmatchcase [] (p # ps) = (p = CHR ''*'' \<and> fnmatchcase [] ps)"
| "fnmatchcase (c # cs) (p # ps) =
     (if p = CHR ''*'' then fnmatchcase (c # cs) ps \<or> fnmatchcase cs (p # ps)
      else p = c \<and> fnmatchcase cs ps)"

text \<open>
  \<open>Path.match(pattern)\<close> with a relative pattern on a POSIX host: the pattern is cut at
  the separators and its components are matched, with the case of the letters kept,
  against as many components at the end of the path; a path with fewer components does
  not match.
\<close>

definition path_match :: "path \<Rightarrow> string \<Rightarrow> bool" where
  "path_match p pattern =
     (let pat_parts = filter (\<lambda>x. x \<noteq> []) (split_on (CHR ''/'') pattern) in
      if length pat_parts > length p then False
      else list_all2 fnmatchcase (drop (length p - length pat_parts) p) pat_parts)"

text \<open>
  The file system under the projects directory. A file has the size that \<open>stat\<close>
  reports (\<open>None\<close> when \<open>stat\<close> raises) and can or cannot be read when it is written
  into the archive. A directory lists its files and its subdirectories in the order
  \<open>os.walk\<close> yields them. Symbolic links are left out.
\<close>

datatype finfo = FInfo (st_size: "nat option") (readable: bool)

datatype tree = Tree "(string \<times> finfo) list" "(string \<times> tree) list"

text \<open>The arguments of \<open>backup\<close> that steer the scan.\<close>

record scan_rule =
  include_venv :: bool
  custom_excludes :: "string list"
  max_size_bytes :: int
  include_paths :: "string list"
  include_projects :: "string list"
  exclude_projects :: "string list"
  auto_include_modules :: bool

text \<open>
  The dictionary \<open>stats\<close>, and with it the entries written into the archive so far and
  the files for which a failed write was logged as an error.
\<close>

record stats =
  included_files :: nat
  excluded_size :: nat
  excluded_count :: nat
  included_custom_paths :: nat
  included_modules :: nat

record scan_state = stats +
  zipf :: "(path \<times> path) list"
  write_failures :: "path list"

definition log_write_error :: "path \<Rightarrow> 'a scan_state_scheme \<Rightarrow> 'a scan_state_scheme" where
  "log_write_error file_path st = st\<lparr>write_failures := write_failures st @ [file_path]\<rparr>"

definition venv_important_files :: "string list" where
  "venv_important_files =
     [''pyvenv.cfg'', ''requirements.txt'', ''Scripts/activate'', ''Scripts/activate.bat'',
      ''Scripts/Activate.ps1'', ''bin/activate'']"

definition in_venv_names :: "string list" where
  "in_venv_names = [''venv'', ''.venv'', ''env'', ''.env'']"

text \<open>\<open>zipf.write(file_path, zip_path)\<close> appends an entry; it makes no check of the name.\<close>

definition zip_write :: "path \<Rightarrow> path \<Rightarrow> 'a scan_state_scheme \<Rightarrow> 'a scan_state_scheme" where
  "zip_write file_path zip_path st = st\<lparr>zipf := zipf st @ [(file_path, zip_path)]\<rparr>"

text \<open>
  The loop over \<open>venv_important_files\<close>: the first pattern that matches decides; the
  file is written (in a real run) and counted once, and a failed write is logged and ends
  the loop with nothing counted.
\<close>

fun venv_loop ::
  "bool \<Rightarrow> path \<Rightarrow> path \<Rightarrow> finfo \<Rightarrow> string list \<Rightarrow> 'a scan_state_scheme \<Rightarrow> 'a scan_state_scheme" where
  "venv_loop dry_run file_path zip_path info [] st = st"
| "venv_loop dry_run file_path zip_path info (venv_file # rest) st =
     (if path_match file_path (''*'' @ venv_file @ ''*'')
      then (if \<not> dry_run
            then (if readable info
                  then (zip_write file_path zip_path st)
                         \<lparr>included_files := included_files st + 1\<rparr>
                  else log_write_error file_path st)
            else st\<lparr>included_files := included_files st + 1\<rparr>)
      else venv_loop dry_run file_path zip_path info rest st)"

text \<open>The body of the loop over the files of one directory.\<close>

definition process_file ::
  "scan_rule \<Rightarrow> bool \<Rightarrow> bool \<Rightarrow> bool \<Rightarrow> path \<Rightarrow> path \<Rightarrow> string \<times> finfo \<Rightarrow>
   'a scan_state_scheme \<Rightarrow> 'a scan_state_scheme" where
  "process_file c dry_run path_explicitly_included in_venv root_path rel_path entry st =
     (let file = fst entry; info = snd entry;
          file_path = root_path @ [file]; zip_path = rel_path @ [file] in
      if path_explicitly_included
      then (if should_exclude_file file_path (custom_excludes c) then st
            else (case st_size info of
                    None \<Rightarrow> st
                  | Some file_size \<Rightarrow>
                      (if int file_size > max_size_bytes c
                       then st\<lparr>excluded_size := excluded_size st + file_size,
                               excluded_count := excluded_count st + 1\<rparr>
                       else if \<not> dry_run \<and> \<not> readable info
                       then log_write_error file_path st
                       else (if \<not> dry_run then zip_write file_path zip_path st else st)
                              \<lparr>included_files := included_files st + 1,
                               included_custom_paths := included_custom_paths st + 1\<rparr>)))
      else if should_exclude_file file_path (custom_excludes c) then st
      else (case st_size info of
              None \<Rightarrow> st
            | Some file_size \<Rightarrow>
                (if int file_size > max_size_bytes c
                 then st\<lparr>excluded_size := excluded_size st + file_size,
                         excluded_count := excluded_count st + 1\<rparr>
                 else if in_venv \<and> include_venv c
                 then venv_loop dry_run file_path zip_path info venv_important_files st
                 else if is_important_file [file] (include_venv c)
                 then (if \<not> dry_run \<and> \<not> readable info then log_write_error file_path st
                       else (if \<not> dry_run then zip_write file_path zip_path st else st)
                              \<lparr>included_files := included_files st + 1\<rparr>)
                 else st)))"

fun process_files ::
  "scan_rule \<Rightarrow> bool \<Rightarrow> bool \<Rightarrow> bool \<Rightarrow> path \<Rightarrow> path \<Rightarrow> (string \<times> finfo) list \<Rightarrow>
   'a scan_state_scheme \<Rightarrow> 'a scan_state_scheme" where
  "process_files c dry_run expl in_venv root_path rel_path [] st = st"
| "process_files c dry_run expl in_venv root_path rel_path (entry # rest) st =
     process_files c dry_run expl in_venv root_path rel_path rest
       (process_file c dry_run expl in_venv root_path rel_path entry st)"

text \<open>
  \<open>os.walk\<close> over a project, top down. \<open>walk\<close> is the body for one directory and
  \<open>walk_dirs\<close> goes through its subdirectories: one that the body removed from \<open>dirs\<close> is
  not entered. \<open>pycharm_dir\<close> is the projects directory, \<open>module_paths\<close> the modules
  found so far and \<open>rel_path\<close> the directory relative to the projects directory.
\<close>

fun walk ::
  "scan_rule \<Rightarrow> bool \<Rightarrow> path \<Rightarrow> string list \<Rightarrow> path \<Rightarrow> tree \<Rightarrow>
   'a scan_state_scheme \<Rightarrow> 'a scan_state_scheme"
and walk_dirs ::
  "scan_rule \<Rightarrow> bool \<Rightarrow> path \<Rightarrow> string list \<Rightarrow> path \<Rightarrow> bool \<Rightarrow> (string \<times> tree) list \<Rightarrow>
   'a scan_state_scheme \<Rightarrow> 'a scan_state_scheme" where
  "walk c dry_run pycharm_dir module_paths rel_path (Tree files dirs) st =
     (let path_explicitly_included =
            (is_in_include_paths rel_path (include_paths c) \<or>
             is_in_include_paths rel_path module_paths);
          in_venv = list_ex (\<lambda>venv_dir. venv_dir \<in> set (pycharm_dir @ rel_path)) in_venv_names
      in walk_dirs c dry_run pycharm_dir module_paths rel_path path_explicitly_included dirs
           (process_files c dry_run path_explicitly_included in_venv
              (pycharm_dir @ rel_path) rel_path files st))"
| "walk_dirs c dry_run pycharm_dir module_paths rel_path expl [] st = st"
| "walk_dirs c dry_run pycharm_dir module_paths rel_path expl ((d, t) # rest) st =
     (if expl \<or> \<not> is_excluded_dir d (include_venv c) (custom_excludes c) \<or>
         is_in_include_paths (rel_path @ [d]) (include_paths c) \<or>
         is_in_include_paths (rel_path @ [d]) module_paths
      then walk_dirs c dry_run pycharm_dir module_paths rel_path expl rest
             (walk c dry_run pycharm_dir module_paths (rel_path @ [d]) t st)
      else walk_dirs c dry_run pycharm_dir module_paths rel_path expl rest st)"

definition is_module_directory :: "tree \<Rightarrow> bool" where
  "is_module_directory t =
     (case t of Tree files dirs \<Rightarrow>
        ''__init__.py'' \<in> set (map fst files) \<or> ''__init__.py'' \<in> set (map fst dirs))"

text \<open>\<open>find_all_modules\<close>, with the module directories relative to the projects directory.\<close>

fun find_all_modules :: "path \<Rightarrow> tree \<Rightarrow> path list"
and find_modules_dirs :: "path \<Rightarrow> (string \<times> tree) list \<Rightarrow> path list" where
  "find_all_modules rel_path (Tree files dirs) =
     (if is_module_directory (Tree files dirs) then [rel_path] else []) @
     find_modules_dirs rel_path dirs"
| "find_modules_dirs rel_path [] = []"
| "find_modules_dirs rel_path ((d, t) # rest) =
     (if d \<in> set (default_excluded_dirs @ venv_dirs) then []
      else find_all_modules (rel_path @ [d]) t) @
     find_modules_dirs rel_path rest"

definition get_project_dirs ::
  "(string \<times> tree) list \<Rightarrow> string list \<Rightarrow> string list \<Rightarrow> (string \<times> tree) list" where
  "get_project_dirs items wanted unwanted =
     filter (\<lambda>(project_name, item).
               \<not> (wanted \<noteq> [] \<and> project_name \<notin> set wanted) \<and>
               project_name \<notin> set unwanted) items"

text \<open>The loop over the projects; \<open>module_paths\<close> grows from project to project.\<close>

fun backup_projects ::
  "scan_rule \<Rightarrow> bool \<Rightarrow> path \<Rightarrow> (string \<times> tree) list \<Rightarrow> string list \<Rightarrow>
   'a scan_state_scheme \<Rightarrow> 'a scan_state_scheme" where
  "backup_projects c dry_run pycharm_dir [] module_paths st = st"
| "backup_projects c dry_run pycharm_dir ((project_name, project_dir) # rest) module_paths st =
     (let project_modules =
            (if auto_include_modules c then find_all_modules [project_name] project_dir
             else []);
          module_paths' = module_paths @ map path_str project_modules;
          st' = st\<lparr>included_modules := included_modules st + length project_modules\<rparr>
      in backup_projects c dry_run pycharm_dir rest module_paths'
           (walk c dry_run pycharm_dir module_paths' [project_name] project_dir st'))"

text \<open>
  What \<open>backup\<close> meets outside itself: the projects directory (its components, whether
  it exists, and its subdirectories before the run), whether the directory of the output
  file exists or can be made, whether the output file can be opened as a new zip
  archive, and where the output file lies: \<open>output_rel\<close> is its path relative to the
  projects directory when it lies inside it and \<open>None\<close> otherwise. A real run makes
  the directory of the output file and opens the archive before it walks the projects,
  so that its walk finds the archive where a project holds it; \<open>container_info\<close> is
  what the walk then finds for it: the size \<open>stat\<close> reports at that moment and whether
  it can be read when it is written into the archive.
\<close>

record backup_env =
  pycharm_dir :: path
  pycharm_dir_exists :: bool
  top_dirs :: "(string \<times> tree) list"
  output_dir_makeable :: bool
  zip_openable :: bool
  output_rel :: "path option"
  container_info :: finfo

text \<open>
  The tree after \<open>output_dir.mkdir(parents=True, exist_ok=True)\<close> and the opening of
  the archive: the directories on the way to the output file exist, made where they were
  missing, and the output file is listed in its directory, in the place of an older file
  of that name if there was one. Where a new name comes in a listing is up to the file
  system; it is put last here.
\<close>

fun put_file :: "string \<Rightarrow> finfo \<Rightarrow> (string \<times> finfo) list \<Rightarrow> (string \<times> finfo) list" where
  "put_file f info [] = [(f, info)]"
| "put_file f info ((g, i) # rest) =
     (if g = f then (g, info) # rest else (g, i) # put_file f info rest)"

fun new_chain :: "path \<Rightarrow> finfo \<Rightarrow> tree" where
  "new_chain [] info = Tree [] []"
| "new_chain [f] info = Tree [(f, info)] []"
| "new_chain (d # e # rest) info = Tree [] [(d, new_chain (e # rest) info)]"

fun put_in_tree :: "path \<Rightarrow> finfo \<Rightarrow> tree \<Rightarrow> tree"
and put_in_dirs :: "string \<Rightarrow> path \<Rightarrow> finfo \<Rightarrow> (string \<times> tree) list \<Rightarrow> (string \<times> tree) list" where
  "put_in_tree [] info t = t"
| "put_in_tree [f] info (Tree files dirs) = Tree (put_file f info files) dirs"
| "put_in_tree (d # e # rest) info (Tree files dirs) =
     Tree files (put_in_dirs d (e # rest) info dirs)"
| "put_in_dirs d p info [] = [(d, new_chain p info)]"
| "put_in_dirs d p info ((d', t) # ds) =
     (if d' = d then (d', put_in_tree p info t) # ds
      else (d', t) # put_in_dirs d p info ds)"

text \<open>
  The subdirectories of the projects directory that a run finds. A dry run makes no
  directory and opens no archive. An output file directly in the projects directory is
  no project and changes nothing.
\<close>

definition scanned_dirs :: "backup_env \<Rightarrow> bool \<Rightarrow> (string \<times> tree) list" where
  "scanned_dirs env dry_run =
     (if dry_run then top_dirs env
      else (case output_rel env of
              Some (d # e # rest) \<Rightarrow> put_in_dirs d (e # rest) (container_info env) (top_dirs env)
            | _ \<Rightarrow> top_dirs env))"

definition empty_state :: scan_state where
  "empty_state =
     \<lparr>included_files = 0, excluded_size = 0, excluded_count = 0, included_custom_paths = 0,
      included_modules = 0, zipf = [], write_failures = []\<rparr>"

text \<open>
  \<open>backup\<close>: the value returned, the statistics of the summary it prints, the archive
  it leaves on disk (\<open>None\<close> when it makes none) and the files whose write failed, or the
  exception it raises. The actions after the backup are left out: they do not change the
  value returned.
\<close>

definition backup ::
  "backup_env \<Rightarrow> scan_rule \<Rightarrow> bool \<Rightarrow>
   error + (bool \<times> stats option \<times> (path \<times> path) list option \<times> path list)" where
  "backup env c dry_run =
     (if \<not> pycharm_dir_exists env then Inr (False, None, None, [])
      else if \<not> dry_run \<and> \<not> output_dir_makeable env then Inl MkdirFailed
      else (let project_dirs =
                  get_project_dirs (scanned_dirs env dry_run) (include_projects c)
                    (exclude_projects c) in
            if \<not> dry_run \<and> \<not> zip_openable env then Inr (False, None, None, [])
            else (let st = backup_projects c dry_run (pycharm_dir env) project_dirs []
                             empty_state
                  in Inr (True, Some (stats.truncate st),
                          if dry_run then None else Some (zipf st), write_failures st))))"

section \<open>Relating a dry run and a real run\<close>

text \<open>
  The states of a dry run and of a real run over the same tree stay related in this way:
  the size rejections and the module count agree, the dry run has counted every file the
  real run included and every file whose write the real run saw fail, and the dry run
  has written and logged nothing.
\<close>

abbreviation dry_real_related :: "'a scan_state_scheme \<Rightarrow> 'b scan_state_scheme \<Rightarrow> bool" where
  "dry_real_related sd sr \<equiv>
     excluded_size sd = excluded_size sr \<and> excluded_count sd = excluded_count sr \<and>
     included_modules sd = included_modules sr \<and>
     included_files sd = included_files sr + length (write_failures sr) \<and>
     included_custom_paths sr \<le> included_custom_paths sd \<and>
     included_custom_paths sd \<le> included_custom_paths sr + length (write_failures sr) \<and>
     write_failures sd = [] \<and> zipf sd = []"

section \<open>Trees as a file system lists them\<close>


section \<open>Namespaces as the specification words them\<close>

text \<open>
  The reserved namespaces of a container are the entries under one of the two reserved
  first segments. \<open>top_level_namespaces\<close> follows the words of the specification, not the
  code: the distinct top-level path segments of the entries, without the reserved ones.
\<close>

definition reserved_entry :: "string \<Rightarrow> bool" where
  "reserved_entry f = (prefix recent_prefix f \<or> prefix global_prefix f)"

definition top_level_namespaces :: "string list \<Rightarrow> string list" where
  "top_level_namespaces names =
     sort (remdups (filter
       (\<lambda>n. n \<noteq> ''_pycharm_recent_projects'' \<and> n \<noteq> ''_pycharm_global_settings'')
       (map (\<lambda>f. hd (split_on (CHR ''/'') f)) names)))"

section \<open>Properties of the file pattern matcher\<close>

text \<open>
  Claim C10. \<open>is_important_file\<close> ignores its \<open>include_venv\<close> argument: for every path
  the result is the same for both values of the flag, and it is true exactly when the
  lower-cased suffix of the path is in the extension allowlist or the final component of
  the path is, as it is written, in the filename allowlist.
\<close>

theorem is_important_file_ignores_include_venv:
  "is_important_file filepath True = is_important_file filepath False \<and>
   (is_important_file filepath flag \<longleftrightarrow>
      lower (path_suffix filepath) \<in> set important_extensions \<or>
      path_name filepath \<in> set important_filenames)"
  by (simp add: is_important_file_def)

section \<open>Properties of the backup file names\<close>

lemma is_digit_digit_char: "is_digit (digit_char n)"
  by (simp add: is_digit_def digit_char_def)

lemma digit_char_neq: "digit_char n \<noteq> CHR ''_''" "digit_char n \<noteq> CHR ''-''"
  using is_digit_digit_char[of n] by (auto simp: is_digit_def)

lemma clean_pattern_rejects_default:
  "\<not> re_match clean_backup_pattern (default_backup_name t)"
  by (simp add: clean_backup_pattern_def default_backup_name_def strftime_stamp_def lits_def
      pad4_def pad2_def digit_char_neq)

lemma default_name_default_named: "default_named (default_backup_name t)"
  by (simp add: default_named_def list_backup_pattern_def default_backup_name_def
      strftime_stamp_def lits_def pad4_def pad2_def is_digit_digit_char)

lemma re_match_iff_prefix_fullmatch:
  "re_match r s \<longleftrightarrow> (\<exists>p. prefix p s \<and> re_fullmatch r p)"
proof (induction r s rule: re_match.induct)
  case (1 s)
  then show ?case by auto
next
  case (2 c r s)
  show ?case
  proof (cases s)
    case Nil
    then show ?thesis by (auto split: list.splits)
  next
    case (Cons x xs)
    have "(\<exists>p. prefix p (x # xs) \<and> re_fullmatch (Lit c # r) p) \<longleftrightarrow>
          (x = c \<and> (\<exists>q. prefix q xs \<and> re_fullmatch r q))"
    proof
      assume "\<exists>p. prefix p (x # xs) \<and> re_fullmatch (Lit c # r) p"
      then obtain p where p: "prefix p (x # xs)" "re_fullmatch (Lit c # r) p" by blast
      from p(2) obtain q where q: "p = c # q" "re_fullmatch r q"
        by (cases p) auto
      with p(1) show "x = c \<and> (\<exists>q. prefix q xs \<and> re_fullmatch r q)" by auto
    next
      assume "x = c \<and> (\<exists>q. prefix q xs \<and> re_fullmatch r q)"
      then obtain q where "x = c" "prefix q xs" "re_fullmatch r q" by blast
      then have "prefix (c # q) (x # xs) \<and> re_fullmatch (Lit c # r) (c # q)" by simp
      then show "\<exists>p. prefix p (x # xs) \<and> re_fullmatch (Lit c # r) p" by blast
    qed
    with 2 Cons show ?thesis by simp
  qed
next
  case (3 n r s)
  show ?case
  proof
    assume "re_match (Digits n # r) s"
    then have n: "n \<le> length s" and d: "list_all is_digit (take n s)" and m: "re_match r (drop n s)"
      by auto
    from m 3 obtain p where p: "prefix p (drop n s)" "re_fullmatch r p" by auto
    have "prefix (take n s @ p) s"
      using p(1) by (metis append_take_drop_id same_prefix_prefix)
    moreover have "re_fullmatch (Digits n # r) (take n s @ p)"
      using n d p(2) by simp
    ultimately show "\<exists>p. prefix p s \<and> re_fullmatch (Digits n # r) p" by blast
  next
    assume "\<exists>p. prefix p s \<and> re_fullmatch (Digits n # r) p"
    then obtain p where p: "prefix p s" "re_fullmatch (Digits n # r) p" by blast
    from p(1) obtain q where s: "s = p @ q" by (auto simp: prefix_def)
    from p(2) have n: "n \<le> length p" and d: "list_all is_digit (take n p)" and f: "re_fullmatch r (drop n p)" by auto
    have "prefix (drop n p) (drop n s)" using s n by simp
    with f 3 have "re_match r (drop n s)" by auto
    with n d s show "re_match (Digits n # r) s" by simp
  qed
qed

lemma set_sort_newest_first: "set (sort_newest_first k xs) = set xs"
  by (simp add: sort_newest_first_def)

lemma old_backups_match: "f \<in> set (old_backups m mt l) \<Longrightarrow> re_match clean_backup_pattern f"
  by (auto simp: old_backups_def Let_def set_sort_newest_first split: if_splits dest!: in_set_dropD)

text \<open>
  Claim C9, as amended. A backup that \<open>create_backup\<close> named by default is never among
  the files \<open>clean_old_backups\<close> removes, whatever \<open>max_backups\<close>, the directory and the
  modification times are: it is in the directory after the call exactly when it was there
  before, because the pattern of \<open>clean_old_backups\<close> matches no default name. The pattern
  of \<open>list_backups\<close> matches every default name, so \<open>list_backups\<close> returns every
  default-named backup of the directory; it matches exactly the names that begin with a
  name of the default shape.
\<close>

theorem default_named_backup_survives_cleanup:
  assumes "valid_datetime t"
  shows "default_backup_name t \<notin> set (old_backups max_backups mtime listing) \<and>
         (default_backup_name t \<in> set listing) =
           (default_backup_name t \<in> set (clean_old_backups max_backups mtime remove_ok listing)) \<and>
         \<not> re_match clean_backup_pattern (default_backup_name t) \<and>
         re_match list_backup_pattern (default_backup_name t) \<and>
         (default_backup_name t \<in> set listing) =
           (default_backup_name t \<in> set (list_backups mtime listing)) \<and>
         (re_match list_backup_pattern f \<longleftrightarrow> (\<exists>p. prefix p f \<and> default_named p))"
proof -
  have a: "default_backup_name t \<notin> set (old_backups max_backups mtime listing)"
    using old_backups_match clean_pattern_rejects_default by blast
  have b: "re_match list_backup_pattern (default_backup_name t)"
    using default_name_default_named[of t] re_match_iff_prefix_fullmatch[of list_backup_pattern "default_backup_name t"]
    by (auto simp: default_named_def)
  have c: "(default_backup_name t \<in> set listing) =
           (default_backup_name t \<in> set (clean_old_backups max_backups mtime remove_ok listing))"
    using a by (auto simp: clean_old_backups_def Let_def)
  have d: "(default_backup_name t \<in> set listing) =
           (default_backup_name t \<in> set (list_backups mtime listing))"
    using b by (auto simp: list_backups_def Let_def set_sort_newest_first filter_empty_conv)
  show ?thesis
    using a b c d clean_pattern_rejects_default re_match_iff_prefix_fullmatch[of list_backup_pattern f]
    by (simp add: default_named_def)
qed

theorem default_named_backup_survives_cleanup_witness:
  "valid_datetime \<lparr>year = 2024, month = 3, day = 9, hour = 7, minute = 5\<rparr> \<and>
   ''pycharm_idea_backup_2024-03-09_07-05.zip'' \<in>
     set (clean_old_backups 1 (\<lambda>f. length f) (\<lambda>f. True)
            [''pycharm_idea_backup_01_02_2024.zip'', ''pycharm_idea_backup_03_04_2024.zip'',
             ''pycharm_idea_backup_2024-03-09_07-05.zip''])"
proof -
  have v: "valid_datetime \<lparr>year = 2024, month = 3, day = 9, hour = 7, minute = 5\<rparr>"
    by (simp add: valid_datetime_def)
  have n: "default_backup_name \<lparr>year = 2024, month = 3, day = 9, hour = 7, minute = 5\<rparr> =
           ''pycharm_idea_backup_2024-03-09_07-05.zip''"
    by code_simp
  show ?thesis
    using v n default_named_backup_survives_cleanup [OF v, of 1 "\<lambda>f. length f"
        "[''pycharm_idea_backup_01_02_2024.zip'', ''pycharm_idea_backup_03_04_2024.zip'',
          ''pycharm_idea_backup_2024-03-09_07-05.zip'']" "\<lambda>f. True" "[]"]
    by simp
qed

text \<open>
  The claim C9 as it is written also says that \<open>list_backups\<close> matches the default-named
  backups only. The pattern is matched at the start of the name and not at its end: a
  name that goes on after \<open>.zip\<close> is listed as well.
\<close>

theorem list_backups_beyond_default_names:
  "re_match list_backup_pattern ''pycharm_idea_backup_2024-03-09_07-05.zip.bak'' \<and>
   \<not> default_named ''pycharm_idea_backup_2024-03-09_07-05.zip.bak'' \<and>
   list_backups (\<lambda>f. 0::nat) [''pycharm_idea_backup_2024-03-09_07-05.zip.bak''] =
     [''pycharm_idea_backup_2024-03-09_07-05.zip.bak'']"
  by (simp add: list_backups_def sort_newest_first_def default_named_def list_backup_pattern_def lits_def is_digit_def)

section \<open>Properties of create and verify\<close>

lemma write_all_ok:
  "list_all (\<lambda>(f, a). ok f) fs \<Longrightarrow> write_all ok fs z = (z @ map snd fs, True)"
  by (induction fs arbitrary: z) auto

text \<open>
  Claim C8. The check of \<open>verify_backup\<close> on a container that could be opened again is
  true exactly when the container does not list fewer entries than there are source
  files. When every file was written, \<open>create_backup\<close> leaves on disk the container with
  the entries it wrote whatever the check says, returns what the check says, and after a
  failing check has logged the warning that the verification failed: the check neither
  removes nor changes the container, and the call returns its result and raises nothing.
\<close>

theorem failed_verification_keeps_archive:
  assumes "projects_dir_isdir w" and "output_dir_ok w" and "open_ok w"
    and "all_files = idea_files w @ recent_files w @ global_settings_files w"
    and "all_files \<noteq> []"
    and "list_all (\<lambda>(f, a). write_ok w f) all_files"
  shows "(fst (verify_backup (Some backup_files) original_files) \<longleftrightarrow>
            \<not> length backup_files < length original_files) \<and>
         fst (snd (create_backup w False disk)) = Some (map snd all_files) \<and>
         fst (create_backup w False disk) = fst (verify_backup (reopened w) (map fst all_files)) \<and>
         (\<not> fst (verify_backup (reopened w) (map fst all_files)) \<longrightarrow>
            (Warning, ''Backup verification failed. The backup may be incomplete or corrupted.'')
              \<in> set (snd (snd (create_backup w False disk))))"
proof -
  have w: "write_all (write_ok w) all_files [] = (map snd all_files, True)"
    using write_all_ok[OF assms(6), of "[]"] by simp
  have v: "fst (verify_backup (Some backup_files) original_files) \<longleftrightarrow>
            \<not> length backup_files < length original_files"
    by (simp add: verify_backup_def)
  obtain b l where bl: "verify_backup (reopened w) (map fst all_files) = (b, l)"
    by (cases "verify_backup (reopened w) (map fst all_files)")
  have c: "create_backup w False disk =
           (if \<not> b then (False, Some (map snd all_files),
              l @ [(Warning, ''Backup verification failed. The backup may be incomplete or corrupted.'')])
            else (True, Some (map snd all_files), l))"
    using assms(1,2,3,5) w bl
    by (simp add: create_backup_def Let_def assms(4)[symmetric])
  show ?thesis using v c bl by simp
qed

theorem failed_verification_keeps_archive_witness:
  "create_backup
     \<lparr>projects_dir_isdir = True, output_dir_ok = True,
      idea_files = [(''/home/u/PycharmProjects/app/.idea/misc.xml'',
                     ''PycharmProjects/app/.idea/misc.xml'')],
      recent_files = [], global_settings_files = [], open_ok = True,
      write_ok = (\<lambda>f. True), reopened = Some []\<rparr> False None =
   (False, Some [''PycharmProjects/app/.idea/misc.xml''],
    [(Info, ''Verifying backup integrity...''),
     (Warning, ''Backup contains fewer files than expected''),
     (Warning, ''Backup verification failed. The backup may be incomplete or corrupted.'')])"
  using failed_verification_keeps_archive [of
     "\<lparr>projects_dir_isdir = True, output_dir_ok = True,
      idea_files = [(''/home/u/PycharmProjects/app/.idea/misc.xml'',
                     ''PycharmProjects/app/.idea/misc.xml'')],
      recent_files = [], global_settings_files = [], open_ok = True,
      write_ok = (\<lambda>f. True), reopened = Some []\<rparr>"
     "[(''/home/u/PycharmProjects/app/.idea/misc.xml'',
        ''PycharmProjects/app/.idea/misc.xml'')]" "[]" "[]" None]
  by (simp add: create_backup_def verify_backup_def)

section \<open>Properties of the restore loops\<close>

lemma extract_each_selected:
  assumes "\<forall>f\<in>set fs. pure_path_parts f \<noteq> [] \<and> hd (pure_path_parts f) \<in> set projects"
  shows "fst (extract_each w projects fs) = filter (can_extract w) fs \<and>
         (\<forall>f\<in>set fs. \<not> can_extract w f \<longrightarrow>
            (Error, ''Error extracting '' @ f) \<in> set (snd (extract_each w projects fs)))"
  using assms by (induction fs) (auto split: prod.splits)

lemma restore_each_count:
  "restore_each w d sd ps = ((n, r), None) \<Longrightarrow>
   n = length (filter (\<lambda>p. snd (restore_project w p d sd) = Inr True) ps)"
proof (induction ps arbitrary: n r)
  case Nil
  then show ?case by simp
next
  case (Cons p ps)
  obtain r0 out where rp: "restore_project w p d sd = (r0, out)"
    by (cases "restore_project w p d sd")
  with Cons.prems obtain ok where out: "out = Inr ok"
    by (cases out) auto
  obtain n' r' e where re: "restore_each w d sd ps = ((n', r'), e)"
    by (cases "restore_each w d sd ps") auto
  from Cons.prems rp out re have e: "e = None" and n: "n = (if ok then Suc n' else n')"
    by auto
  from Cons.IH[of n' r'] re e
  have "n' = length (filter (\<lambda>p. snd (restore_project w p d sd) = Inr True) ps)" by simp
  with n rp out show ?case by auto
qed

lemma restore_projects_result:
  assumes "restore_projects w sel rr rg d sd = (r, Inr b)" and "backup_exists w"
  shows "b \<longleftrightarrow> (\<exists>p\<in>set (if selected sel = [] then list_projects_in_backup w else selected sel).
                  snd (restore_project w p d sd) = Inr True)"
proof -
  let ?ps = "if selected sel = [] then list_projects_in_backup w else selected sel"
  obtain n r0 e where re: "restore_each w d sd ?ps = ((n, r0), e)"
    by (cases "restore_each w d sd ?ps") auto
  from assms re have e: "e = None"
    by (cases e) (auto simp: restore_projects_def Let_def)
  from assms re e have b: "b = (n > 0)"
    by (auto simp: restore_projects_def Let_def split: prod.splits sum.splits if_splits)
  from restore_each_count[of w d sd ?ps n r0] re e
  have "n = length (filter (\<lambda>p. snd (restore_project w p d sd) = Inr True) ?ps)" by simp
  then have "n > 0 \<longleftrightarrow> (\<exists>p\<in>set ?ps. snd (restore_project w p d sd) = Inr True)"
    by (auto simp: filter_empty_conv)
  with b show ?thesis by simp
qed

text \<open>
  Claim C7, as amended. In \<open>PyCharmBackupRestoreManager.restore\<close>, once the container was
  read and the selection (if any) names a project of the container, every matched entry
  is tried: the entries restored are exactly the matched entries whose extraction
  succeeds, whichever entries failed before them, every failure is logged as an error,
  and the value returned is success, also when no entry was restored. \<open>restore_projects\<close>
  returns success exactly when \<open>restore_project\<close> returned true for at least one project.
\<close>

theorem restore_continues_after_failure:
  assumes "archive_exists w" and "extract_dir_ok w" and "archive w = Some all_files"
    and "selected_projects = [] \<or>
         (\<exists>f\<in>set all_files. pure_path_parts f \<noteq> [] \<and>
            hd (pure_path_parts f) \<in> set selected_projects)"
  shows "snd (restore w selected_projects) = Inr True \<and>
         fst (fst (restore w selected_projects)) =
           filter (can_extract w)
             (filter (\<lambda>f. pure_path_parts f \<noteq> [] \<and>
                (selected_projects = [] \<or> hd (pure_path_parts f) \<in> set selected_projects))
                all_files) \<and>
         (\<forall>f\<in>set all_files. pure_path_parts f \<noteq> [] \<and>
             (selected_projects = [] \<or> hd (pure_path_parts f) \<in> set selected_projects) \<and>
             \<not> can_extract w f \<longrightarrow>
             (Error, ''Error extracting '' @ f) \<in> set (snd (fst (restore w selected_projects)))) \<and>
         (backup_exists cw \<and> restore_projects cw sel rr rg d sd = (r, Inr b) \<longrightarrow>
            (b \<longleftrightarrow> (\<exists>p\<in>set (if selected sel = [] then list_projects_in_backup cw
                                  else selected sel).
                      snd (restore_project cw p d sd) = Inr True)))"
proof -
  define found where "found = remdups (List.map_filter
      (\<lambda>f. case pure_path_parts f of [] \<Rightarrow> None | p # ps \<Rightarrow> Some p) all_files)"
  define projects where "projects =
      (if selected_projects \<noteq> [] then filter (\<lambda>p. p \<in> set selected_projects) found else found)"
  define project_files where "project_files =
      filter (\<lambda>f. pure_path_parts f \<noteq> [] \<and> hd (pure_path_parts f) \<in> set projects) all_files"
  have found: "set found = {hd (pure_path_parts f) | f. f \<in> set all_files \<and> pure_path_parts f \<noteq> []}"
    unfolding found_def
    by (force simp: List.map_filter_def image_iff split: list.splits)
  have inproj: "\<And>f. f \<in> set all_files \<Longrightarrow> pure_path_parts f \<noteq> [] \<Longrightarrow>
      (hd (pure_path_parts f) \<in> set projects \<longleftrightarrow>
         selected_projects = [] \<or> hd (pure_path_parts f) \<in> set selected_projects)"
    unfolding projects_def using found by auto
  have pf: "project_files = filter (\<lambda>f. pure_path_parts f \<noteq> [] \<and>
                (selected_projects = [] \<or> hd (pure_path_parts f) \<in> set selected_projects))
                all_files"
    unfolding project_files_def using inproj by (intro filter_cong) auto
  have nonempty: "\<not> (selected_projects \<noteq> [] \<and> projects = [])"
  proof
    assume a: "selected_projects \<noteq> [] \<and> projects = []"
    with assms(4) obtain f where f: "f \<in> set all_files" "pure_path_parts f \<noteq> []"
        "hd (pure_path_parts f) \<in> set selected_projects" by auto
    with inproj have "hd (pure_path_parts f) \<in> set projects" by simp
    with a show False by simp
  qed
  have r: "restore w selected_projects = (extract_each w projects project_files, Inr True)"
    using assms(1,2,3) nonempty[unfolded projects_def found_def]
    by (auto simp: restore_def Let_def projects_def project_files_def found_def)
  have sel: "\<forall>f\<in>set project_files. pure_path_parts f \<noteq> [] \<and> hd (pure_path_parts f) \<in> set projects"
    by (simp add: project_files_def)
  note ee = extract_each_selected[OF sel, of w]
  have a: "fst (fst (restore w selected_projects)) = filter (can_extract w) project_files"
    using r ee by simp
  have l: "\<forall>f\<in>set project_files. \<not> can_extract w f \<longrightarrow>
            (Error, ''Error extracting '' @ f) \<in> set (snd (fst (restore w selected_projects)))"
    using r ee by simp
  show ?thesis
    using r a l restore_projects_result[of cw sel rr rg d sd r b]
    by (auto simp: pf)
qed

theorem restore_continues_after_failure_witness:
  "restore \<lparr>archive_exists = True, extract_dir_ok = True,
            archive = Some [''proj/a.py'', ''proj/b.py'', ''proj/c.py''],
            can_extract = (\<lambda>f. f \<noteq> ''proj/b.py'')\<rparr> [] =
     (([''proj/a.py'', ''proj/c.py''],
       [(Debug, ''Restored: proj/a.py''), (Error, ''Error extracting proj/b.py''),
        (Debug, ''Restored: proj/c.py'')]), Inr True)"
  using restore_continues_after_failure [of
     "\<lparr>archive_exists = True, extract_dir_ok = True,
            archive = Some [''proj/a.py'', ''proj/b.py'', ''proj/c.py''],
            can_extract = (\<lambda>f. f \<noteq> ''proj/b.py'')\<rparr>"
     "[''proj/a.py'', ''proj/b.py'', ''proj/c.py'']" "[]"]
  by (simp add: restore_def pure_path_parts_def List.map_filter_def)

text \<open>
  The claim C7 as it is written makes success depend on an entry having been restored.
  With one matched entry whose extraction fails, nothing is restored, the failure is
  logged and \<open>restore\<close> still returns success.
\<close>

theorem restore_reports_success_with_nothing_restored:
  "restore \<lparr>archive_exists = True, extract_dir_ok = True,
            archive = Some [''proj/main.py''], can_extract = (\<lambda>f. False)\<rparr> [] =
     (([], [(Error, ''Error extracting proj/main.py'')]), Inr True)"
  by (simp add: restore_def pure_path_parts_def List.map_filter_def)

section \<open>Properties of listing and of restoring by namespace\<close>

lemma extract_all_subset: "set (fst (extract_all w fs)) \<subseteq> set fs"
  by (induction fs) (auto split: prod.splits)

lemma restore_project_subset:
  assumes "container w = Some names"
  shows "set (fst (restore_project w p d sd)) \<subseteq>
         {f \<in> set names. prefix (projects_base w @ ''/'' @ p) f}"
proof -
  have "set (fst (extract_all w (filter (prefix (projects_base w @ ''/'' @ p)) names)))
        \<subseteq> {f \<in> set names. prefix (projects_base w @ ''/'' @ p) f}"
    using extract_all_subset[of w "filter (prefix (projects_base w @ ''/'' @ p)) names"] by auto
  then show ?thesis
    using assms
    by (auto simp: restore_project_def Let_def split: option.splits prod.splits if_splits)
qed

lemma restore_each_subset:
  "set (snd (fst (restore_each w d sd ps))) \<subseteq> (\<Union>p\<in>set ps. set (fst (restore_project w p d sd)))"
proof (induction ps)
  case Nil
  then show ?case by simp
next
  case (Cons p ps)
  obtain r0 out where rp: "restore_project w p d sd = (r0, out)"
    by (cases "restore_project w p d sd")
  obtain n' r' e where re: "restore_each w d sd ps = ((n', r'), e)"
    by (cases "restore_each w d sd ps") auto
  show ?case using Cons.IH rp re by (cases out) auto
qed

lemma takeWhile_sep: "c \<notin> set b \<Longrightarrow> takeWhile (\<lambda>x. x \<noteq> c) (b @ c # rest) = b"
  by (induction b) auto

lemma same_first_segment:
  assumes "prefix (b @ ''/'' @ p) f" and "prefix (r @ ''/'') f"
    and "CHR ''/'' \<notin> set b" and "CHR ''/'' \<notin> set r"
  shows "b = r"
proof -
  from assms(1) obtain s1 where "f = b @ CHR ''/'' # (p @ s1)" by (auto simp: prefix_def)
  then have 1: "takeWhile (\<lambda>x. x \<noteq> CHR ''/'') f = b" using takeWhile_sep[OF assms(3)] by simp
  from assms(2) obtain s2 where "f = r @ CHR ''/'' # s2" by (auto simp: prefix_def)
  then have 2: "takeWhile (\<lambda>x. x \<noteq> CHR ''/'') f = r" using takeWhile_sep[OF assms(4)] by simp
  from 1 2 show ?thesis by simp
qed

lemma project_entry_not_reserved:
  assumes "prefix (b @ ''/'' @ p) f" and "CHR ''/'' \<notin> set b"
    and "b \<noteq> ''_pycharm_recent_projects''" and "b \<noteq> ''_pycharm_global_settings''"
  shows "\<not> reserved_entry f"
proof
  assume "reserved_entry f"
  then consider "prefix (''_pycharm_recent_projects'' @ ''/'') f"
    | "prefix (''_pycharm_global_settings'' @ ''/'') f"
    by (auto simp: reserved_entry_def recent_prefix_def global_prefix_def)
  then show False
  proof cases
    case 1
    from same_first_segment[OF assms(1) 1 assms(2)] assms(3) show False by simp
  next
    case 2
    from same_first_segment[OF assms(1) 2 assms(2)] assms(4) show False by simp
  qed
qed

lemma restore_recent_file_subset:
  "set (snd (fst (restore_recent_file w d f cds))) \<subseteq> {f}"
  by (induction cds) (auto split: prod.splits)

lemma restore_recent_loop_subset:
  "set (snd (fst (restore_recent_loop w d fs))) \<subseteq> set fs"
proof (induction fs)
  case Nil
  then show ?case by simp
next
  case (Cons f fs)
  obtain n r e where a: "restore_recent_file w d f (config_dirs w) = ((n, r), e)"
    by (cases "restore_recent_file w d f (config_dirs w)") auto
  obtain m r' e' where b: "restore_recent_loop w d fs = ((m, r'), e')"
    by (cases "restore_recent_loop w d fs") auto
  from restore_recent_file_subset[of w d f "config_dirs w"] a have "set r \<subseteq> {f}" by simp
  with Cons.IH a b show ?case by (cases e) auto
qed

lemma restore_recent_projects_subset:
  "set (fst (restore_recent_projects w d)) \<subseteq> {f. prefix recent_prefix f}"
proof (cases "container w")
  case None
  then show ?thesis by (simp add: restore_recent_projects_def)
next
  case (Some names)
  let ?rf = "filter (prefix recent_prefix) names"
  obtain n r e where l: "restore_recent_loop w d ?rf = ((n, r), e)"
    by (cases "restore_recent_loop w d ?rf") auto
  from restore_recent_loop_subset[of w d ?rf] l
  have r: "set r \<subseteq> {f. prefix recent_prefix f}" by auto
  have "fst (restore_recent_projects w d) = [] \<or> fst (restore_recent_projects w d) = r"
    using Some l by (cases e) (simp_all add: restore_recent_projects_def Let_def)
  with r show ?thesis by auto
qed

lemma restore_version_files_subset:
  "set (snd (fst (restore_version_files w d fs))) \<subseteq> set fs"
  by (induction fs) (auto split: prod.splits)

lemma restore_versions_subset:
  "set (snd (fst (restore_versions w d gs vs))) \<subseteq> set gs"
proof (induction vs)
  case Nil
  then show ?case by simp
next
  case (Cons v vs)
  let ?vf = "filter (prefix (global_prefix @ v @ ''/'')) gs"
  obtain n r e where a: "restore_version_files w d ?vf = ((n, r), e)"
    by (cases "restore_version_files w d ?vf") auto
  obtain m r' e' where b: "restore_versions w d gs vs = ((m, r'), e')"
    by (cases "restore_versions w d gs vs") auto
  from restore_version_files_subset[of w d ?vf] a have "set r \<subseteq> set gs" by auto
  with Cons.IH a b show ?case by (cases e) (auto simp: Let_def)
qed

lemma restore_global_settings_subset:
  "set (fst (restore_global_settings w d)) \<subseteq> {f. prefix global_prefix f}"
proof (cases "container w")
  case None
  then show ?thesis by (simp add: restore_global_settings_def)
next
  case (Some names)
  let ?gs = "filter (prefix global_prefix) names"
  obtain n r e where l: "restore_versions w d ?gs (versions_in_backup ?gs) = ((n, r), e)"
    by (cases "restore_versions w d ?gs (versions_in_backup ?gs)") auto
  from restore_versions_subset[of w d ?gs "versions_in_backup ?gs"] l
  have r: "set r \<subseteq> {f. prefix global_prefix f}" by auto
  have "fst (restore_global_settings w d) = [] \<or> fst (restore_global_settings w d) = r"
    using Some l by (cases e) (simp_all add: restore_global_settings_def Let_def)
  with r show ?thesis by auto
qed

lemma recent_not_global: "prefix recent_prefix f \<Longrightarrow> \<not> prefix global_prefix f"
  by (auto simp: recent_prefix_def global_prefix_def prefix_def)

lemma restore_projects_parts:
  "set (fst (restore_projects w sel rr rg d sd)) \<subseteq>
     set (snd (fst (restore_each w d sd
        (if selected sel = [] then list_projects_in_backup w else selected sel)))) \<union>
     (if rr then set (fst (restore_recent_projects w d)) else {}) \<union>
     (if rg then set (fst (restore_global_settings w d)) else {})"
proof (cases "backup_exists w")
  case False
  then show ?thesis by (simp add: restore_projects_def)
next
  case True
  let ?ps = "if selected sel = [] then list_projects_in_backup w else selected sel"
  let ?rec = "if rr then restore_recent_projects w d else ([], Inr False)"
  let ?glo = "if rg then restore_global_settings w d else ([], Inr False)"
  obtain n r0 e where re: "restore_each w d sd ?ps = ((n, r0), e)"
    by (cases "restore_each w d sd ?ps") auto
  obtain r1 o1 where rec: "?rec = (r1, o1)" by (cases ?rec)
  obtain r2 o2 where glo: "?glo = (r2, o2)" by (cases ?glo)
  have r1: "set r1 \<subseteq> (if rr then set (fst (restore_recent_projects w d)) else {})"
    using rec by (cases rr) auto
  have r2: "set r2 \<subseteq> (if rg then set (fst (restore_global_settings w d)) else {})"
    using glo by (cases rg) auto
  have "set (fst (restore_projects w sel rr rg d sd)) \<subseteq> set r0 \<union> set r1 \<union> set r2"
    using True re rec glo
    by (cases e; cases o1; cases o2) (auto simp: restore_projects_def Let_def)
  moreover have "set r0 = set (snd (fst (restore_each w d sd ?ps)))"
    using re by simp
  ultimately show ?thesis using r1 r2 by blast
qed

lemma list_projects_set:
  assumes "backup_exists w" and "container w = Some names"
  shows "set (list_projects_in_backup w) = {p. \<exists>f\<in>set names. project_of_entry f = Some p}"
  using assms by (force simp: list_projects_in_backup_def List.map_filter_def image_iff)

lemma project_of_reserved: "reserved_entry f \<Longrightarrow> project_of_entry f = None"
  by (auto simp: reserved_entry_def project_of_entry_def)

lemma restore_projects_all_subset:
  assumes "container w = Some names"
  shows "set (fst (restore_projects w sel rr rg d sd)) \<subseteq>
     {f \<in> set names. \<exists>p \<in> set (if selected sel = [] then list_projects_in_backup w else selected sel).
         prefix (projects_base w @ ''/'' @ p) f} \<union>
     (if rr then {f. prefix recent_prefix f} else {}) \<union>
     (if rg then {f. prefix global_prefix f} else {})"
proof -
  let ?ps = "if selected sel = [] then list_projects_in_backup w else selected sel"
  have a: "set (snd (fst (restore_each w d sd ?ps))) \<subseteq>
        {f \<in> set names. \<exists>p \<in> set ?ps. prefix (projects_base w @ ''/'' @ p) f}"
    using restore_each_subset[of w d sd ?ps] restore_project_subset[OF assms, of _ d sd]
    by blast
  have b: "(if rr then set (fst (restore_recent_projects w d)) else {}) \<subseteq>
           (if rr then {f. prefix recent_prefix f} else {})"
    using restore_recent_projects_subset[of w d] by simp
  have c: "(if rg then set (fst (restore_global_settings w d)) else {}) \<subseteq>
           (if rg then {f. prefix global_prefix f} else {})"
    using restore_global_settings_subset[of w d] by simp
  show ?thesis
    using restore_projects_parts[of w sel rr rg d sd] a b c by blast
qed

text \<open>
  Claim C4, as amended. For a container that can be read, \<open>list_projects_in_backup\<close>
  returns, sorted and without repetition, exactly the second path segments of the entries
  that are not under a reserved namespace and have at least two segments (the first
  segment of a project entry is the name of the projects directory). When the projects
  directory is not itself named like a reserved namespace, restoring with scope \<open>all\<close>
  copies only entries of the container that lie under a listed project and under no
  reserved namespace, apart from the entries of a reserved namespace whose own flag is
  set.
\<close>

theorem listing_and_restore_by_namespace:
  assumes "backup_exists w" and "container w = Some names"
    and "CHR ''/'' \<notin> set (projects_base w)"
    and "projects_base w \<noteq> ''_pycharm_recent_projects''"
    and "projects_base w \<noteq> ''_pycharm_global_settings''"
  shows "set (list_projects_in_backup w) =
           {p. \<exists>f\<in>set names. \<not> reserved_entry f \<and> 2 \<le> length (split_on (CHR ''/'') f) \<and>
                 p = split_on (CHR ''/'') f ! 1} \<and>
         distinct (list_projects_in_backup w) \<and> sorted (list_projects_in_backup w) \<and>
         (\<forall>f\<in>set (fst (restore_projects w (Project ''all'') rr rg d sd)).
            (\<not> reserved_entry f \<and> f \<in> set names \<and>
               (\<exists>p\<in>set (list_projects_in_backup w). prefix (projects_base w @ ''/'' @ p) f)) \<or>
            (rr \<and> prefix recent_prefix f) \<or> (rg \<and> prefix global_prefix f))"
proof -
  have l: "set (list_projects_in_backup w) =
           {p. \<exists>f\<in>set names. \<not> reserved_entry f \<and> 2 \<le> length (split_on (CHR ''/'') f) \<and>
                 p = split_on (CHR ''/'') f ! 1}"
    unfolding list_projects_set[OF assms(1,2)]
    by (auto simp: project_of_entry_def reserved_entry_def Let_def split: if_splits)
  have ds: "distinct (list_projects_in_backup w) \<and> sorted (list_projects_in_backup w)"
    using assms(1,2) by (simp add: list_projects_in_backup_def)
  have sel: "selected (Project ''all'') = []"
    by (simp add: selected_def lower_def lower_char_def)
  have r: "\<forall>f\<in>set (fst (restore_projects w (Project ''all'') rr rg d sd)).
            (\<not> reserved_entry f \<and> f \<in> set names \<and>
               (\<exists>p\<in>set (list_projects_in_backup w). prefix (projects_base w @ ''/'' @ p) f)) \<or>
            (rr \<and> prefix recent_prefix f) \<or> (rg \<and> prefix global_prefix f)"
  proof
    fix f assume "f \<in> set (fst (restore_projects w (Project ''all'') rr rg d sd))"
    with restore_projects_all_subset[OF assms(2), of "Project ''all''" rr rg d sd] sel
    consider "f \<in> set names \<and> (\<exists>p\<in>set (list_projects_in_backup w).
                 prefix (projects_base w @ ''/'' @ p) f)"
      | "rr \<and> prefix recent_prefix f" | "rg \<and> prefix global_prefix f"
      by (auto split: if_splits)
    then show "(\<not> reserved_entry f \<and> f \<in> set names \<and>
               (\<exists>p\<in>set (list_projects_in_backup w). prefix (projects_base w @ ''/'' @ p) f)) \<or>
            (rr \<and> prefix recent_prefix f) \<or> (rg \<and> prefix global_prefix f)"
    proof cases
      case 1
      then obtain p where "prefix (projects_base w @ ''/'' @ p) f" by blast
      from project_entry_not_reserved[OF this assms(3,4,5)] 1 show ?thesis by simp
    qed simp_all
  qed
  from l ds r show ?thesis by simp
qed

theorem listing_and_restore_by_namespace_witness:
  "list_projects_in_backup
     \<lparr>backup_exists = True,
      container = Some [''PycharmProjects/app/.idea/misc.xml'',
                        ''_pycharm_recent_projects/PyCharm2023.1/recentProjects.xml''],
      projects_base = ''PycharmProjects'', project_exists = (\<lambda>p. True),
      idea_exists = (\<lambda>p. True), makedirs_ok = (\<lambda>f. True), extract_ok = (\<lambda>f. True),
      diff_ok = (\<lambda>f. True), config_dirs = [], config_base = (\<lambda>d. d),
      options_exists = (\<lambda>d. True)\<rparr> = [''app''] \<and>
   restore_projects
     \<lparr>backup_exists = True,
      container = Some [''PycharmProjects/app/.idea/misc.xml'',
                        ''_pycharm_recent_projects/PyCharm2023.1/recentProjects.xml''],
      projects_base = ''PycharmProjects'', project_exists = (\<lambda>p. True),
      idea_exists = (\<lambda>p. True), makedirs_ok = (\<lambda>f. True), extract_ok = (\<lambda>f. True),
      diff_ok = (\<lambda>f. True), config_dirs = [], config_base = (\<lambda>d. d),
      options_exists = (\<lambda>d. True)\<rparr>
     (Project ''all'') False False False False =
     ([''PycharmProjects/app/.idea/misc.xml''], Inr True)"
  using listing_and_restore_by_namespace [of
     "\<lparr>backup_exists = True,
      container = Some [''PycharmProjects/app/.idea/misc.xml'',
                        ''_pycharm_recent_projects/PyCharm2023.1/recentProjects.xml''],
      projects_base = ''PycharmProjects'', project_exists = (\<lambda>p. True),
      idea_exists = (\<lambda>p. True), makedirs_ok = (\<lambda>f. True), extract_ok = (\<lambda>f. True),
      diff_ok = (\<lambda>f. True), config_dirs = [], config_base = (\<lambda>d. d),
      options_exists = (\<lambda>d. True)\<rparr>"
     "[''PycharmProjects/app/.idea/misc.xml'',
       ''_pycharm_recent_projects/PyCharm2023.1/recentProjects.xml'']" False False False False]
  by (simp add: restore_projects_def list_projects_in_backup_def List.map_filter_def
      project_of_entry_def recent_prefix_def global_prefix_def selected_def lower_def
      lower_char_def restore_project_def)

text \<open>
  The claim C4 as it is written takes the listing to be the top-level segments. For a
  container with one project entry the listing is the project name, which is the second
  segment; the only top-level segment that is not reserved is the name of the projects
  directory.
\<close>

theorem listing_is_not_top_level_segments:
  "list_projects_in_backup
     \<lparr>backup_exists = True,
      container = Some [''PycharmProjects/app/.idea/misc.xml'',
                        ''_pycharm_recent_projects/PyCharm2023.1/recentProjects.xml''],
      projects_base = ''PycharmProjects'', project_exists = (\<lambda>p. True),
      idea_exists = (\<lambda>p. True), makedirs_ok = (\<lambda>f. True), extract_ok = (\<lambda>f. True),
      diff_ok = (\<lambda>f. True), config_dirs = [], config_base = (\<lambda>d. d),
      options_exists = (\<lambda>d. True)\<rparr> = [''app''] \<and>
   top_level_namespaces [''PycharmProjects/app/.idea/misc.xml'',
                         ''_pycharm_recent_projects/PyCharm2023.1/recentProjects.xml''] =
     [''PycharmProjects'']"
  by (simp add: list_projects_in_backup_def List.map_filter_def project_of_entry_def
      recent_prefix_def global_prefix_def top_level_namespaces_def)

section \<open>Properties of the scan of one file\<close>

lemma venv_loop_result:
  "venv_loop dry_run fp zp info vs st =
     (if list_ex (\<lambda>v. path_match fp (''*'' @ v @ ''*'')) vs
      then (if \<not> dry_run
            then (if readable info
                  then (zip_write fp zp st)\<lparr>included_files := included_files st + 1\<rparr>
                  else log_write_error fp st)
            else st\<lparr>included_files := included_files st + 1\<rparr>)
      else st)"
  by (induction vs) auto

text \<open>
  Claim C5. For a scanned file that no custom pattern excludes and that the rest of the
  policy accepts (its directory is explicitly included, or it is a marker file of an
  environment directory, or it is an important file), with a maximum size configured: at
  exactly the maximum size the file is included and the size-rejection statistics stay
  as they are (in a real run the entry is written, the file being readable); one byte
  above, the file is not included, nothing is written, and the rejection count grows by
  one and the rejected bytes by the size of the file.
\<close>

theorem size_boundary_is_inclusive:
  assumes "\<not> should_exclude_file (root_path @ [file]) (custom_excludes c)"
    and "0 \<le> max_size_bytes c"
    and "expl \<or>
         (if in_venv \<and> include_venv c
          then list_ex (\<lambda>v. path_match (root_path @ [file]) (''*'' @ v @ ''*''))
                 venv_important_files
          else is_important_file [file] (include_venv c))"
    and "dry_run \<or> rd"
    and "at_max = process_file c dry_run expl in_venv root_path rel_path
                    (file, FInfo (Some (nat (max_size_bytes c))) rd) st"
    and "over_max = process_file c dry_run expl in_venv root_path rel_path
                    (file, FInfo (Some (nat (max_size_bytes c) + 1)) rd) st"
  shows "included_files at_max = included_files st + 1 \<and>
         excluded_count at_max = excluded_count st \<and>
         excluded_size at_max = excluded_size st \<and>
         zipf at_max = (if dry_run then zipf st
                        else zipf st @ [(root_path @ [file], rel_path @ [file])]) \<and>
         included_files over_max = included_files st \<and>
         included_custom_paths over_max = included_custom_paths st \<and>
         zipf over_max = zipf st \<and>
         excluded_count over_max = excluded_count st + 1 \<and>
         excluded_size over_max = excluded_size st + (nat (max_size_bytes c) + 1)"
  using assms
  by (auto simp: process_file_def Let_def venv_loop_result zip_write_def log_write_error_def)

theorem size_boundary_is_inclusive_witness:
  "process_file \<lparr>include_venv = False, custom_excludes = [], max_size_bytes = 100,
      include_paths = [], include_projects = [], exclude_projects = [],
      auto_include_modules = True\<rparr> False False False
     [''home'', ''proj''] [''proj''] (''main.py'', FInfo (Some 100) True) empty_state =
   empty_state\<lparr>included_files := 1,
     zipf := [([''home'', ''proj'', ''main.py''], [''proj'', ''main.py''])]\<rparr> \<and>
   process_file \<lparr>include_venv = False, custom_excludes = [], max_size_bytes = 100,
      include_paths = [], include_projects = [], exclude_projects = [],
      auto_include_modules = True\<rparr> False False False
     [''home'', ''proj''] [''proj''] (''main.py'', FInfo (Some 101) True) empty_state =
   empty_state\<lparr>excluded_size := 101, excluded_count := 1\<rparr>"
  using size_boundary_is_inclusive [of "[''home'', ''proj'']" "''main.py''"
     "\<lparr>include_venv = False, custom_excludes = [], max_size_bytes = 100,
      include_paths = [], include_projects = [], exclude_projects = [],
      auto_include_modules = True\<rparr>" False False False True _ "[''proj'']" empty_state, OF _ _ _ _ refl refl]
  by (simp add: process_file_def should_exclude_file_def is_important_file_def
      path_suffix_def path_name_def lower_def lower_char_def important_extensions_def
      empty_state_def zip_write_def Let_def)




text \<open>
  In a directory that the scan takes for an environment directory, with environment
  inclusion on and no explicit inclusion, a file that passed the exclusion patterns and
  the size cap is included exactly when its path matches one of the marker patterns.
\<close>

lemma venv_directory_keeps_marker_files_only:
  assumes "include_venv c"
    and "\<not> should_exclude_file (root_path @ [file]) (custom_excludes c)"
    and "int file_size \<le> max_size_bytes c" and "dry_run \<or> rd"
  shows "process_file c dry_run False True root_path rel_path
           (file, FInfo (Some file_size) rd) st =
         (if list_ex (\<lambda>v. path_match (root_path @ [file]) (''*'' @ v @ ''*''))
               venv_important_files
          then (if dry_run then st else zip_write (root_path @ [file]) (rel_path @ [file]) st)
                 \<lparr>included_files := included_files st + 1\<rparr>
          else st)"
  using assms by (auto simp: process_file_def Let_def venv_loop_result)

text \<open>
  Claim C3 at the directory name \<open>virtualenv\<close>. \<open>is_excluded_dir\<close> and
  \<open>find_all_modules\<close> count \<open>virtualenv\<close> among the environment directories, the test
  \<open>in_venv\<close> of the scan does not. With environment inclusion on, a file of a
  \<open>virtualenv\<close> directory that is no marker file is included as an important file; the
  same file in a \<open>venv\<close> directory is dropped.
\<close>

theorem virtualenv_directory_is_not_filtered_to_markers:
  "backup \<lparr>pycharm_dir = [''home'', ''u'', ''PycharmProjects''], pycharm_dir_exists = True,
       top_dirs = [(''proj'', Tree []
          [(''virtualenv'', Tree [(''helper.py'', FInfo (Some 10) True)] [])])],
       output_dir_makeable = True, zip_openable = True,
       output_rel = None, container_info = FInfo None False\<rparr>
     \<lparr>include_venv = True, custom_excludes = [], max_size_bytes = 100,
      include_paths = [], include_projects = [], exclude_projects = [],
      auto_include_modules = True\<rparr> True =
   Inr (True, Some \<lparr>included_files = 1, excluded_size = 0, excluded_count = 0,
                     included_custom_paths = 0, included_modules = 0\<rparr>, None, []) \<and>
   backup \<lparr>pycharm_dir = [''home'', ''u'', ''PycharmProjects''], pycharm_dir_exists = True,
       top_dirs = [(''proj'', Tree []
          [(''venv'', Tree [(''helper.py'', FInfo (Some 10) True)] [])])],
       output_dir_makeable = True, zip_openable = True,
       output_rel = None, container_info = FInfo None False\<rparr>
     \<lparr>include_venv = True, custom_excludes = [], max_size_bytes = 100,
      include_paths = [], include_projects = [], exclude_projects = [],
      auto_include_modules = True\<rparr> True =
   Inr (True, Some \<lparr>included_files = 0, excluded_size = 0, excluded_count = 0,
                     included_custom_paths = 0, included_modules = 0\<rparr>, None, [])"
  by code_simp

section \<open>Properties of a dry run and a real run\<close>

lemma process_file_dry_real:
  assumes "dry_real_related sd sr"
  shows "dry_real_related (process_file c True e v rp rel x sd)
           (process_file c False e v rp rel x sr)"
  using assms
  by (auto simp: process_file_def Let_def venv_loop_result zip_write_def log_write_error_def
      split: option.splits)

lemma process_files_dry_real:
  "dry_real_related sd sr \<Longrightarrow>
   dry_real_related (process_files c True e v rp rel xs sd)
     (process_files c False e v rp rel xs sr)"
proof (induction xs arbitrary: sd sr)
  case Nil
  then show ?case by simp
next
  case (Cons x xs)
  from process_file_dry_real[OF Cons.prems, of c e v rp rel x]
  show ?case by (simp only: process_files.simps) (rule Cons.IH)
qed

lemma walk_dry_real:
  fixes st0 :: "'a scan_state_scheme" and dr :: bool
  shows "(\<forall>(sd :: 'a scan_state_scheme) (sr :: 'a scan_state_scheme). dry_real_related sd sr \<longrightarrow>
      dry_real_related (walk c True pd mods rel t sd) (walk c False pd mods rel t sr))"
  and "(\<forall>(sd :: 'a scan_state_scheme) (sr :: 'a scan_state_scheme). dry_real_related sd sr \<longrightarrow>
      dry_real_related (walk_dirs c True pd mods rel expl ds sd)
        (walk_dirs c False pd mods rel expl ds sr))"
proof (induction c dr pd mods rel t st0 and c dr pd mods rel expl ds st0
    rule: walk_walk_dirs.induct)
  case (1 c dry_run pycharm_dir module_paths rel_path files dirs st)
  show ?case
  proof (intro allI impI)
    fix sd sr :: "'a scan_state_scheme"
    assume r: "dry_real_related sd sr"
    let ?e = "is_in_include_paths rel_path (include_paths c) \<or>
              is_in_include_paths rel_path module_paths"
    let ?v = "list_ex (\<lambda>venv_dir. venv_dir \<in> set (pycharm_dir @ rel_path)) in_venv_names"
    from process_files_dry_real[OF r, of c ?e ?v "pycharm_dir @ rel_path" rel_path files]
    have "dry_real_related
        (process_files c True ?e ?v (pycharm_dir @ rel_path) rel_path files sd)
        (process_files c False ?e ?v (pycharm_dir @ rel_path) rel_path files sr)" .
    with 1[OF refl refl] show "dry_real_related
        (walk c True pycharm_dir module_paths rel_path (Tree files dirs) sd)
        (walk c False pycharm_dir module_paths rel_path (Tree files dirs) sr)"
      by (simp only: walk.simps Let_def) blast
  qed
next
  case (2 c dry_run pycharm_dir module_paths rel_path expl st)
  then show ?case by simp
next
  case (3 c dry_run pycharm_dir module_paths rel_path expl d t rest st)
  show ?case
  proof (intro allI impI)
    fix sd sr :: "'a scan_state_scheme"
    assume r: "dry_real_related sd sr"
    show "dry_real_related
        (walk_dirs c True pycharm_dir module_paths rel_path expl ((d, t) # rest) sd)
        (walk_dirs c False pycharm_dir module_paths rel_path expl ((d, t) # rest) sr)"
    proof (cases "expl \<or> \<not> is_excluded_dir d (include_venv c) (custom_excludes c) \<or>
         is_in_include_paths (rel_path @ [d]) (include_paths c) \<or>
         is_in_include_paths (rel_path @ [d]) module_paths")
      case True
      from 3(1)[OF True] r have "dry_real_related
          (walk c True pycharm_dir module_paths (rel_path @ [d]) t sd)
          (walk c False pycharm_dir module_paths (rel_path @ [d]) t sr)" by blast
      with 3(2)[OF True] True show ?thesis
        by (simp only: walk_dirs.simps if_True) blast
    next
      case False
      with 3(3)[OF False] r show ?thesis
        by (simp only: walk_dirs.simps if_False) blast
    qed
  qed
qed

lemma backup_projects_dry_real:
  fixes sd sr :: "'a scan_state_scheme"
  shows "dry_real_related sd sr \<Longrightarrow>
   dry_real_related (backup_projects c True pd ps mods sd) (backup_projects c False pd ps mods sr)"
proof (induction ps arbitrary: mods sd sr)
  case Nil
  then show ?case by simp
next
  case (Cons p ps)
  obtain name t where p: "p = (name, t)" by (cases p)
  let ?pm = "if auto_include_modules c then find_all_modules [name] t else []"
  let ?mods = "mods @ map path_str ?pm"
  let ?sd = "sd\<lparr>included_modules := included_modules sd + length ?pm\<rparr>"
  let ?sr = "sr\<lparr>included_modules := included_modules sr + length ?pm\<rparr>"
  from Cons.prems have "dry_real_related ?sd ?sr" by simp
  then have "dry_real_related (walk c True pd ?mods [name] t ?sd) (walk c False pd ?mods [name] t ?sr)"
    by (rule walk_dry_real(1)[rule_format])
  from Cons.IH[OF this, of ?mods] show ?case
    unfolding p by (simp only: backup_projects.simps Let_def)
qed

text \<open>
  The real run finds the tree of the dry run when the output file lies outside the
  projects directory or directly in it.
\<close>

lemma output_outside_projects_same_tree:
  assumes "output_rel env = None \<or> (\<exists>p. output_rel env = Some p \<and> length p \<le> 1)"
  shows "scanned_dirs env False = scanned_dirs env True"
proof -
  from assms consider "output_rel env = None" | "output_rel env = Some []"
    | f where "output_rel env = Some [f]"
    by (metis One_nat_def le_Suc_eq le_zero_eq length_0_conv length_Suc_conv)
  then show ?thesis by cases (simp_all add: scanned_dirs_def)
qed

text \<open>
  An output file inside a project is found by the real run only. Here it lies in the
  project \<open>proj\<close> and is larger than the maximum when the walk reaches it: the real run
  reports one size rejection and the dry run none.
\<close>

lemma output_inside_project_is_scanned_by_real_run_only:
  "backup \<lparr>pycharm_dir = [''home'', ''u'', ''PycharmProjects''], pycharm_dir_exists = True,
       top_dirs = [(''proj'', Tree [(''main.py'', FInfo (Some 10) True)] [])],
       output_dir_makeable = True, zip_openable = True,
       output_rel = Some [''proj'', ''out.zip''], container_info = FInfo (Some 200) True\<rparr>
     \<lparr>include_venv = False, custom_excludes = [], max_size_bytes = 100,
      include_paths = [], include_projects = [], exclude_projects = [],
      auto_include_modules = True\<rparr> True =
   Inr (True, Some \<lparr>included_files = 1, excluded_size = 0, excluded_count = 0,
                     included_custom_paths = 0, included_modules = 0\<rparr>, None, []) \<and>
   backup \<lparr>pycharm_dir = [''home'', ''u'', ''PycharmProjects''], pycharm_dir_exists = True,
       top_dirs = [(''proj'', Tree [(''main.py'', FInfo (Some 10) True)] [])],
       output_dir_makeable = True, zip_openable = True,
       output_rel = Some [''proj'', ''out.zip''], container_info = FInfo (Some 200) True\<rparr>
     \<lparr>include_venv = False, custom_excludes = [], max_size_bytes = 100,
      include_paths = [], include_projects = [], exclude_projects = [],
      auto_include_modules = True\<rparr> False =
   Inr (True, Some \<lparr>included_files = 1, excluded_size = 200, excluded_count = 1,
                     included_custom_paths = 0, included_modules = 0\<rparr>,
        Some [([''home'', ''u'', ''PycharmProjects'', ''proj'', ''main.py''],
               [''proj'', ''main.py''])], [])"
  by code_simp

text \<open>
  Here the project \<open>proj\<close> is explicitly included and the output file in it is below
  the maximum when the walk reaches it: the real run writes the output file into itself
  and reports two included files, the dry run one.
\<close>

lemma output_inside_included_project_is_written_by_real_run:
  "backup \<lparr>pycharm_dir = [''home'', ''u'', ''PycharmProjects''], pycharm_dir_exists = True,
       top_dirs = [(''proj'', Tree [(''main.py'', FInfo (Some 10) True)] [])],
       output_dir_makeable = True, zip_openable = True,
       output_rel = Some [''proj'', ''out.zip''], container_info = FInfo (Some 50) True\<rparr>
     \<lparr>include_venv = False, custom_excludes = [], max_size_bytes = 100,
      include_paths = [''proj''], include_projects = [], exclude_projects = [],
      auto_include_modules = True\<rparr> True =
   Inr (True, Some \<lparr>included_files = 1, excluded_size = 0, excluded_count = 0,
                     included_custom_paths = 1, included_modules = 0\<rparr>, None, []) \<and>
   backup \<lparr>pycharm_dir = [''home'', ''u'', ''PycharmProjects''], pycharm_dir_exists = True,
       top_dirs = [(''proj'', Tree [(''main.py'', FInfo (Some 10) True)] [])],
       output_dir_makeable = True, zip_openable = True,
       output_rel = Some [''proj'', ''out.zip''], container_info = FInfo (Some 50) True\<rparr>
     \<lparr>include_venv = False, custom_excludes = [], max_size_bytes = 100,
      include_paths = [''proj''], include_projects = [], exclude_projects = [],
      auto_include_modules = True\<rparr> False =
   Inr (True, Some \<lparr>included_files = 2, excluded_size = 0, excluded_count = 0,
                     included_custom_paths = 2, included_modules = 0\<rparr>,
        Some [([''home'', ''u'', ''PycharmProjects'', ''proj'', ''main.py''],
               [''proj'', ''main.py'']),
              ([''home'', ''u'', ''PycharmProjects'', ''proj'', ''out.zip''],
               [''proj'', ''out.zip''])], [])"
  by code_simp

text \<open>
  Claim C2, as amended. Where the real run reaches the scan (the projects directory
  exists, the directory of the output file can be made and the archive can be opened)
  and finds the tree that the dry run finds (the output file is not made inside a
  project), a dry run and a real run with the same rule both return success and report
  the same size-rejection count and bytes and the same module count; the dry run reports
  as many included files as the real run plus the files whose write failed in the real
  run, and the files from custom paths differ by no more than that, so that all
  statistics are the same when no write fails. Only the real run leaves an archive on
  disk.
\<close>

theorem dry_run_statistics_differ_by_failed_writes:
  assumes "pycharm_dir_exists env" and "output_dir_makeable env" and "zip_openable env"
    and "scanned_dirs env False = scanned_dirs env True"
  shows "\<exists>sd sr z fails.
           backup env c True = Inr (True, Some sd, None, []) \<and>
           backup env c False = Inr (True, Some sr, Some z, fails) \<and>
           excluded_count sd = excluded_count sr \<and> excluded_size sd = excluded_size sr \<and>
           included_modules sd = included_modules sr \<and>
           included_files sd = included_files sr + length fails \<and>
           included_custom_paths sr \<le> included_custom_paths sd \<and>
           included_custom_paths sd \<le> included_custom_paths sr + length fails \<and>
           (fails = [] \<longrightarrow> sd = sr)"
proof -
  let ?ps = "get_project_dirs (top_dirs env) (include_projects c) (exclude_projects c)"
  let ?d = "backup_projects c True (pycharm_dir env) ?ps [] empty_state"
  let ?r = "backup_projects c False (pycharm_dir env) ?ps [] empty_state"
  have "dry_real_related empty_state empty_state" by (simp add: empty_state_def)
  from backup_projects_dry_real[OF this, of c "pycharm_dir env" ?ps "[]"]
  have rel: "dry_real_related ?d ?r" .
  have same: "scanned_dirs env False = top_dirs env" "scanned_dirs env True = top_dirs env"
    using assms(4) by (simp_all add: scanned_dirs_def)
  have d: "backup env c True = Inr (True, Some (stats.truncate ?d), None, [])"
    using assms(1,2,3) same rel by (simp add: backup_def Let_def)
  have r: "backup env c False = Inr (True, Some (stats.truncate ?r), Some (zipf ?r), write_failures ?r)"
    using assms(1,2,3) same by (simp add: backup_def Let_def)
  have eq: "write_failures ?r = [] \<longrightarrow> stats.truncate ?d = stats.truncate ?r"
    using rel by (auto simp: stats.truncate_def)
  show ?thesis
    using d r rel eq by (simp add: stats.truncate_def)
qed

theorem dry_run_statistics_differ_by_failed_writes_witness:
  "\<exists>sd sr z.
     backup \<lparr>pycharm_dir = [''home'', ''u'', ''PycharmProjects''], pycharm_dir_exists = True,
       top_dirs = [(''proj'', Tree [(''main.py'', FInfo (Some 10) True)] [])],
       output_dir_makeable = True, zip_openable = True,
       output_rel = None, container_info = FInfo None False\<rparr>
       \<lparr>include_venv = False, custom_excludes = [], max_size_bytes = 100,
        include_paths = [], include_projects = [], exclude_projects = [],
        auto_include_modules = True\<rparr> True = Inr (True, Some sd, None, []) \<and>
     backup \<lparr>pycharm_dir = [''home'', ''u'', ''PycharmProjects''], pycharm_dir_exists = True,
       top_dirs = [(''proj'', Tree [(''main.py'', FInfo (Some 10) True)] [])],
       output_dir_makeable = True, zip_openable = True,
       output_rel = None, container_info = FInfo None False\<rparr>
       \<lparr>include_venv = False, custom_excludes = [], max_size_bytes = 100,
        include_paths = [], include_projects = [], exclude_projects = [],
        auto_include_modules = True\<rparr> False = Inr (True, Some sr, Some z, []) \<and>
     sd = sr \<and> included_files sr = 1"
proof -
  have f: "backup \<lparr>pycharm_dir = [''home'', ''u'', ''PycharmProjects''], pycharm_dir_exists = True,
       top_dirs = [(''proj'', Tree [(''main.py'', FInfo (Some 10) True)] [])],
       output_dir_makeable = True, zip_openable = True,
       output_rel = None, container_info = FInfo None False\<rparr>
       \<lparr>include_venv = False, custom_excludes = [], max_size_bytes = 100,
        include_paths = [], include_projects = [], exclude_projects = [],
        auto_include_modules = True\<rparr> False =
     Inr (True, Some \<lparr>included_files = 1, excluded_size = 0, excluded_count = 0,
                       included_custom_paths = 0, included_modules = 0\<rparr>,
          Some [([''home'', ''u'', ''PycharmProjects'', ''proj'', ''main.py''],
                 [''proj'', ''main.py''])], [])"
    by code_simp
  show ?thesis
    using f dry_run_statistics_differ_by_failed_writes [of
       "\<lparr>pycharm_dir = [''home'', ''u'', ''PycharmProjects''], pycharm_dir_exists = True,
       top_dirs = [(''proj'', Tree [(''main.py'', FInfo (Some 10) True)] [])],
       output_dir_makeable = True, zip_openable = True,
       output_rel = None, container_info = FInfo None False\<rparr>"
       "\<lparr>include_venv = False, custom_excludes = [], max_size_bytes = 100,
        include_paths = [], include_projects = [], exclude_projects = [],
        auto_include_modules = True\<rparr>"]
    by (auto simp: scanned_dirs_def)
qed

text \<open>
  The claim C2 as it is written: with one important file that can be sized and cannot be
  read, the dry run reports one included file and the real run, which logs the failed
  write and does not count the file, reports none.
\<close>

theorem dry_run_counts_a_file_whose_write_fails:
  "backup \<lparr>pycharm_dir = [''home'', ''u'', ''PycharmProjects''], pycharm_dir_exists = True,
       top_dirs = [(''proj'', Tree [(''main.py'', FInfo (Some 10) False)] [])],
       output_dir_makeable = True, zip_openable = True,
       output_rel = None, container_info = FInfo None False\<rparr>
     \<lparr>include_venv = False, custom_excludes = [], max_size_bytes = 100,
      include_paths = [], include_projects = [], exclude_projects = [],
      auto_include_modules = True\<rparr> True =
   Inr (True, Some \<lparr>included_files = 1, excluded_size = 0, excluded_count = 0,
                     included_custom_paths = 0, included_modules = 0\<rparr>, None, []) \<and>
   backup \<lparr>pycharm_dir = [''home'', ''u'', ''PycharmProjects''], pycharm_dir_exists = True,
       top_dirs = [(''proj'', Tree [(''main.py'', FInfo (Some 10) False)] [])],
       output_dir_makeable = True, zip_openable = True,
       output_rel = None, container_info = FInfo None False\<rparr>
     \<lparr>include_venv = False, custom_excludes = [], max_size_bytes = 100,
      include_paths = [], include_projects = [], exclude_projects = [],
      auto_include_modules = True\<rparr> False =
   Inr (True, Some \<lparr>included_files = 0, excluded_size = 0, excluded_count = 0,
                     included_custom_paths = 0, included_modules = 0\<rparr>, Some [],
        [[''home'', ''u'', ''PycharmProjects'', ''proj'', ''main.py'']])"
  by code_simp

section \<open>Properties of the names in the archive\<close>




















end
